theory Spec2Isabelle
  imports Complex_Main "HOL-Library.Sublist"
begin

section \<open>Python strings\<close>

text \<open>
  A Python \<open>str\<close> is a sequence of Unicode code points, so a string is a list of
  code points given as natural numbers. \<open>lit\<close> turns the ASCII text of a source
  literal into such a list.
\<close>

type_synonym pystr = "nat list"

definition lit :: "string \<Rightarrow> pystr" where
  "lit s = map of_char s"

text \<open>
  The characters \<open>str.strip()\<close> removes when called without an argument: the ones
  for which \<open>str.isspace()\<close> holds (tab to carriage return, the four separators
  U+001C to U+001F, the space, U+0085, U+00A0 and the Unicode spaces beyond).
\<close>

definition is_space :: "nat \<Rightarrow> bool" where
  "is_space c \<longleftrightarrow>
     (9 \<le> c \<and> c \<le> 13) \<or> (28 \<le> c \<and> c \<le> 32) \<or> c = 133 \<or> c = 160 \<or> c = 5760 \<or>
     (8192 \<le> c \<and> c \<le> 8202) \<or> c = 8232 \<or> c = 8233 \<or> c = 8239 \<or> c = 8287 \<or>
     c = 12288"

definition lstrip :: "pystr \<Rightarrow> pystr" where
  "lstrip s = dropWhile is_space s"

definition rstrip :: "pystr \<Rightarrow> pystr" where
  "rstrip s = rev (dropWhile is_space (rev s))"

definition strip :: "pystr \<Rightarrow> pystr" where
  "strip s = rstrip (lstrip s)"

text \<open>\<open>sep.join(xs)\<close>.\<close>

fun join :: "pystr \<Rightarrow> pystr list \<Rightarrow> pystr" where
  "join sep [] = []"
| "join sep [x] = x"
| "join sep (x # y # ys) = x @ sep @ join sep (y # ys)"

text \<open>\<open>str(n)\<close> of an integer: its decimal digits, after a minus sign when negative.\<close>

fun str_nat :: "nat \<Rightarrow> pystr" where
  "str_nat n = (if n < 10 then [48 + n] else str_nat (n div 10) @ [48 + n mod 10])"

declare str_nat.simps [simp del]

definition str_int :: "int \<Rightarrow> pystr" where
  "str_int i = (if i < 0 then 45 # str_nat (nat (- i)) else str_nat (nat i))"

text \<open>The format specification \<open>2d\<close>: decimal, padded with spaces on the left to width 2.\<close>

definition fmt_2d :: "int \<Rightarrow> pystr" where
  "fmt_2d i = (let s = str_int i in replicate (2 - length s) 32 @ s)"

text \<open>\<open>s.split('\n')\<close>: the lines of a string.\<close>

fun split_lines :: "pystr \<Rightarrow> pystr list" where
  "split_lines [] = [[]]"
| "split_lines (c # cs) =
     (if c = 10 then [] # split_lines cs
      else (case split_lines cs of [] \<Rightarrow> [[c]] | l # ls \<Rightarrow> (c # l) # ls))"

section \<open>Parsed JSON and the Python operations on it\<close>

datatype pyfloat = Finite real | NaN | PosInf | NegInf

text \<open>
  What \<open>response.json()\<close> yields. An object is the list of its entries in the order
  of the body; \<open>map_of\<close> looks a key up.
\<close>

datatype json =
    JNull
  | JBool bool
  | JInt int
  | JFloat pyfloat
  | JStr pystr
  | JList "json list"
  | JObj "(pystr \<times> json) list"

datatype error =
    KeyError pystr
  | TypeError
  | AttributeError
  | IndexError
  | JSONDecodeError
  | RequestException

text \<open>Truth value of a parsed value, as \<open>not data\<close> tests it.\<close>

fun truthy :: "json \<Rightarrow> bool" where
  "truthy JNull = False"
| "truthy (JBool b) = b"
| "truthy (JInt i) = (i \<noteq> 0)"
| "truthy (JFloat f) = (f \<noteq> Finite 0)"
| "truthy (JStr s) = (s \<noteq> [])"
| "truthy (JList xs) = (xs \<noteq> [])"
| "truthy (JObj kvs) = (kvs \<noteq> [])"

text \<open>\<open>len(data)\<close>: numbers, booleans and \<open>None\<close> have no length.\<close>

fun py_len :: "json \<Rightarrow> error + nat" where
  "py_len (JStr s) = Inr (length s)"
| "py_len (JList xs) = Inr (length xs)"
| "py_len (JObj kvs) = Inr (length kvs)"
| "py_len _ = Inl TypeError"

text \<open>
  \<open>key in data\<close> for a string key: a key of an object, an element of a list, a
  substring of a string; any other value is not a container.
\<close>

fun py_in :: "pystr \<Rightarrow> json \<Rightarrow> error + bool" where
  "py_in key (JObj kvs) = Inr (map_of kvs key \<noteq> None)"
| "py_in key (JList xs) = Inr (JStr key \<in> set xs)"
| "py_in key (JStr s) = Inr (sublist key s)"
| "py_in key _ = Inl TypeError"

text \<open>\<open>data[key]\<close> for a string key: only an object can be indexed by a string.\<close>

fun py_getitem :: "json \<Rightarrow> pystr \<Rightarrow> error + json" where
  "py_getitem (JObj kvs) key =
     (case map_of kvs key of None \<Rightarrow> Inl (KeyError key) | Some v \<Rightarrow> Inr v)"
| "py_getitem _ key = Inl TypeError"

text \<open>\<open>value.strip()\<close>: only a string has the method.\<close>

fun py_strip :: "json \<Rightarrow> error + pystr" where
  "py_strip (JStr s) = Inr (strip s)"
| "py_strip _ = Inl AttributeError"

text \<open>
  The values a \<open>for\<close> loop visits: the elements of a list, the characters of a string,
  the keys of an object.
\<close>

fun py_iter :: "json \<Rightarrow> error + json list" where
  "py_iter (JList xs) = Inr xs"
| "py_iter (JStr s) = Inr (map (\<lambda>c. JStr [c]) s)"
| "py_iter (JObj kvs) = Inr (map (\<lambda>kv. JStr (fst kv)) kvs)"
| "py_iter _ = Inl TypeError"

text \<open>\<open>xs[:n]\<close> on a sequence: a negative bound counts from the end.\<close>

definition slice_to :: "int \<Rightarrow> 'a list \<Rightarrow> 'a list" where
  "slice_to n xs = (if 0 \<le> n then take (nat n) xs else take (length xs - nat (- n)) xs)"

text \<open>
  \<open>data[:limit]\<close>, followed by the loop over it. An object cannot be sliced
  (\<open>TypeError\<close>; from Python 3.12 on, where a slice is hashable, \<open>KeyError\<close>).
\<close>

fun py_slice_iter :: "json \<Rightarrow> int \<Rightarrow> error + json list" where
  "py_slice_iter (JList xs) n = Inr (slice_to n xs)"
| "py_slice_iter (JStr s) n = Inr (map (\<lambda>c. JStr [c]) (slice_to n s))"
| "py_slice_iter _ n = Inl TypeError"

text \<open>
  A replacement field \<open>{value}\<close> of an f-string is \<open>str(value)\<close>. For a string that is
  the string itself. The text Python prints for a float, a list or a dict is the
  interpreter's and is taken as the parameter \<open>repr\<close>.
\<close>

fun fstr :: "(json \<Rightarrow> pystr) \<Rightarrow> json \<Rightarrow> pystr" where
  "fstr repr (JStr s) = s"
| "fstr repr (JInt i) = str_int i"
| "fstr repr (JBool b) = (if b then lit ''True'' else lit ''False'')"
| "fstr repr JNull = lit ''None''"
| "fstr repr v = repr v"

text \<open>\<open>value or default\<close> on an argument that may be \<open>None\<close>.\<close>

definition or_str :: "pystr option \<Rightarrow> pystr \<Rightarrow> pystr" where
  "or_str v d = (case v of None \<Rightarrow> d | Some s \<Rightarrow> if s = [] then d else s)"

definition or_int :: "int option \<Rightarrow> int \<Rightarrow> int" where
  "or_int v d = (case v of None \<Rightarrow> d | Some n \<Rightarrow> if n = 0 then d else n)"

text \<open>
  An exception ends the call: the first failing step decides the result, and the
  steps after it do not run.
\<close>

fun and_then :: "error + 'a \<Rightarrow> ('a \<Rightarrow> error + 'b) \<Rightarrow> error + 'b" where
  "and_then (Inl e) f = Inl e"
| "and_then (Inr x) f = f x"

section \<open>The HTTP response\<close>

text \<open>
  What the tools read of a \<open>requests\<close> response: the status code and the parsed
  body, \<open>None\<close> when the body is not JSON and \<open>response.json()\<close> raises.
  \<open>requests.get\<close> is a parameter of every tool: it maps the URL to the response, or
  to the exception of a failed connection.
\<close>

record response =
  status_code :: int
  body :: "json option"

definition response_json :: "response \<Rightarrow> error + json" where
  "response_json r = (case body r of None \<Rightarrow> Inl JSONDecodeError | Some d \<Rightarrow> Inr d)"

type_synonym http = "pystr \<Rightarrow> error + response"

section \<open>The tools\<close>

text \<open>
  Every tool returns \<open>Inr\<close> of the string it returns, or \<open>Inl\<close> of the exception
  that leaves it. The lines that build the URL are a definition of their own, so that
  the request a tool sends can be named.
\<close>

subsection \<open>get_verse\<close>

definition get_verse_url :: "pystr \<Rightarrow> pystr option \<Rightarrow> pystr" where
  "get_verse_url reference translation =
     (let translation = or_str translation (lit ''kjv'')
      in lit ''https://bible-api.com/'' @ reference @ lit ''?translation='' @ translation)"

definition get_verse :: "(json \<Rightarrow> pystr) \<Rightarrow> http \<Rightarrow> pystr \<Rightarrow> pystr option \<Rightarrow> error + pystr" where
  "get_verse repr requests_get reference translation =
     and_then (requests_get (get_verse_url reference translation)) (\<lambda>response.
       if status_code response = 200 then
         and_then (response_json response) (\<lambda>data.
         and_then (py_in (lit ''error'') data) (\<lambda>has_error.
           if has_error then
             and_then (py_getitem data (lit ''error'')) (\<lambda>err.
               Inr (lit ''Error: '' @ fstr repr err))
           else
             and_then (py_getitem data (lit ''reference'')) (\<lambda>r.
             and_then (py_getitem data (lit ''translation_name'')) (\<lambda>t.
             and_then (py_getitem data (lit ''text'')) (\<lambda>x.
             and_then (py_strip x) (\<lambda>sx.
               Inr (fstr repr r @ lit '' ('' @ fstr repr t @ lit ''):\<newline>'' @ sx)))))))
       else Inr (lit ''Error fetching verse: HTTP '' @ str_int (status_code response)))"

subsection \<open>search_verses\<close>

definition search_verses_url :: "pystr \<Rightarrow> int option \<Rightarrow> pystr" where
  "search_verses_url query limit =
     (let limit = or_int limit 10
      in lit ''https://bible-api.com/search/'' @ query @ lit ''?limit='' @ str_int limit)"

text \<open>The string appended for one result.\<close>

definition search_entry :: "(json \<Rightarrow> pystr) \<Rightarrow> json \<Rightarrow> error + pystr" where
  "search_entry repr verse =
     and_then (py_getitem verse (lit ''reference'')) (\<lambda>r.
     and_then (py_getitem verse (lit ''text'')) (\<lambda>x.
     and_then (py_strip x) (\<lambda>sx.
       Inr (fstr repr r @ lit '': '' @ sx))))"

text \<open>The loop that fills \<open>results\<close>.\<close>

fun search_loop :: "(json \<Rightarrow> pystr) \<Rightarrow> pystr list \<Rightarrow> json list \<Rightarrow> error + pystr list" where
  "search_loop repr results [] = Inr results"
| "search_loop repr results (verse # rest) =
     and_then (search_entry repr verse) (\<lambda>entry. search_loop repr (results @ [entry]) rest)"

definition search_verses :: "(json \<Rightarrow> pystr) \<Rightarrow> http \<Rightarrow> pystr \<Rightarrow> int option \<Rightarrow> error + pystr" where
  "search_verses repr requests_get query limit =
     and_then (requests_get (search_verses_url query limit)) (\<lambda>response.
       if status_code response = 200 then
         and_then (response_json response) (\<lambda>data.
         and_then (if \<not> truthy data then Inr True
                   else and_then (py_len data) (\<lambda>n. Inr (n = 0))) (\<lambda>none_found.
           if none_found then
             Inr (lit ''No verses found containing '' @ [39] @ query @ [39])
           else
             and_then (py_slice_iter data (or_int limit 10)) (\<lambda>verses.
             and_then (search_loop repr [] verses) (\<lambda>results.
               Inr (lit ''Found '' @ str_int (int (length results)) @ lit '' verse(s) for ''
                    @ [39] @ query @ [39] @ lit '':\<newline>\<newline>''
                    @ join (lit ''\<newline>\<newline>'') results)))))
       else Inr (lit ''Error searching verses: HTTP '' @ str_int (status_code response)))"

subsection \<open>get_chapter\<close>

definition get_chapter_url :: "pystr \<Rightarrow> pystr option \<Rightarrow> pystr" where
  "get_chapter_url book_chapter translation =
     (let translation = or_str translation (lit ''kjv'')
      in lit ''https://bible-api.com/'' @ book_chapter @ lit ''?translation='' @ translation)"

text \<open>The string the loop appends for one verse.\<close>

definition verse_line :: "(json \<Rightarrow> pystr) \<Rightarrow> json \<Rightarrow> error + pystr" where
  "verse_line repr verse =
     and_then (py_getitem verse (lit ''verse'')) (\<lambda>n.
     and_then (py_getitem verse (lit ''text'')) (\<lambda>x.
       Inr (fstr repr n @ lit ''. '' @ fstr repr x @ lit ''\<newline>'')))"

fun chapter_loop :: "(json \<Rightarrow> pystr) \<Rightarrow> pystr \<Rightarrow> json list \<Rightarrow> error + pystr" where
  "chapter_loop repr chapter_text [] = Inr chapter_text"
| "chapter_loop repr chapter_text (verse # rest) =
     and_then (verse_line repr verse) (\<lambda>line. chapter_loop repr (chapter_text @ line) rest)"

definition get_chapter :: "(json \<Rightarrow> pystr) \<Rightarrow> http \<Rightarrow> pystr \<Rightarrow> pystr option \<Rightarrow> error + pystr" where
  "get_chapter repr requests_get book_chapter translation =
     and_then (requests_get (get_chapter_url book_chapter translation)) (\<lambda>response.
       if status_code response = 200 then
         and_then (response_json response) (\<lambda>data.
         and_then (py_in (lit ''error'') data) (\<lambda>has_error.
           if has_error then
             and_then (py_getitem data (lit ''error'')) (\<lambda>err.
               Inr (lit ''Error: '' @ fstr repr err))
           else
             and_then (py_getitem data (lit ''reference'')) (\<lambda>r.
             and_then (py_getitem data (lit ''translation_name'')) (\<lambda>t.
             and_then (py_getitem data (lit ''verses'')) (\<lambda>vs.
             and_then (py_iter vs) (\<lambda>verses.
             and_then (chapter_loop repr
                         (fstr repr r @ lit '' ('' @ fstr repr t @ lit ''):\<newline>\<newline>'')
                         verses) (\<lambda>chapter_text.
               Inr (strip chapter_text))))))))
       else Inr (lit ''Error fetching chapter: HTTP '' @ str_int (status_code response)))"

subsection \<open>get_random_verse\<close>

definition inspiring_verses :: "pystr list" where
  "inspiring_verses = map lit
     [''Jeremiah 29:11'', ''Romans 8:28'', ''Philippians 4:13'', ''John 3:16'',
      ''Psalm 23:1'', ''Isaiah 40:31'', ''Proverbs 3:5-6'', ''Matthew 28:20'',
      ''Romans 8:31'', ''Ephesians 2:8-9'', ''Psalm 46:1'', ''Isaiah 41:10'']"

text \<open>
  \<open>random.choice(seq)\<close> raises \<open>IndexError\<close> on an empty sequence and otherwise
  returns the element at an index below \<open>len(seq)\<close> that the generator draws. The
  state of the generator enters as the number \<open>draw\<close>; every index below the length
  is the outcome of some draw, and no draw gives another.
\<close>

definition random_choice :: "nat \<Rightarrow> 'a list \<Rightarrow> error + 'a" where
  "random_choice draw seq =
     (if seq = [] then Inl IndexError else Inr (seq ! (draw mod length seq)))"

definition get_random_verse_url :: "nat \<Rightarrow> pystr option \<Rightarrow> error + pystr" where
  "get_random_verse_url draw translation =
     and_then (random_choice draw inspiring_verses) (\<lambda>verse_ref.
       let translation = or_str translation (lit ''kjv'')
       in Inr (lit ''https://bible-api.com/'' @ verse_ref @ lit ''?translation='' @ translation))"

definition get_random_verse :: "(json \<Rightarrow> pystr) \<Rightarrow> http \<Rightarrow> nat \<Rightarrow> pystr option \<Rightarrow> error + pystr" where
  "get_random_verse repr requests_get draw translation =
     and_then (get_random_verse_url draw translation) (\<lambda>url.
     and_then (requests_get url) (\<lambda>response.
       if status_code response = 200 then
         and_then (response_json response) (\<lambda>data.
         and_then (py_getitem data (lit ''reference'')) (\<lambda>r.
         and_then (py_getitem data (lit ''translation_name'')) (\<lambda>t.
         and_then (py_getitem data (lit ''text'')) (\<lambda>x.
         and_then (py_strip x) (\<lambda>sx.
           Inr (lit ''Random Verse - '' @ fstr repr r @ lit '' ('' @ fstr repr t
                @ lit ''):\<newline>'' @ sx))))))
       else Inr (lit ''Error fetching random verse: HTTP '' @ str_int (status_code response))))"

section \<open>The resources\<close>

definition books :: "pystr list" where
  "books = map lit
     [''Genesis (Gen)'', ''Exodus (Exo)'', ''Leviticus (Lev)'', ''Numbers (Num)'', ''Deuteronomy (Deu)'',
      ''Joshua (Jos)'', ''Judges (Jdg)'', ''Ruth (Rut)'', ''1 Samuel (1Sa)'', ''2 Samuel (2Sa)'',
      ''1 Kings (1Ki)'', ''2 Kings (2Ki)'', ''1 Chronicles (1Ch)'', ''2 Chronicles (2Ch)'', ''Ezra (Ezr)'',
      ''Nehemiah (Neh)'', ''Esther (Est)'', ''Job (Job)'', ''Psalms (Psa)'', ''Proverbs (Pro)'',
      ''Ecclesiastes (Ecc)'', ''Song of Solomon (Son)'', ''Isaiah (Isa)'', ''Jeremiah (Jer)'', ''Lamentations (Lam)'',
      ''Ezekiel (Eze)'', ''Daniel (Dan)'', ''Hosea (Hos)'', ''Joel (Joe)'', ''Amos (Amo)'',
      ''Obadiah (Oba)'', ''Jonah (Jon)'', ''Micah (Mic)'', ''Nahum (Nah)'', ''Habakkuk (Hab)'',
      ''Zephaniah (Zep)'', ''Haggai (Hag)'', ''Zechariah (Zec)'', ''Malachi (Mal)'',
      ''Matthew (Mat)'', ''Mark (Mar)'', ''Luke (Luk)'', ''John (Joh)'', ''Acts (Act)'',
      ''Romans (Rom)'', ''1 Corinthians (1Co)'', ''2 Corinthians (2Co)'', ''Galatians (Gal)'', ''Ephesians (Eph)'',
      ''Philippians (Phi)'', ''Colossians (Col)'', ''1 Thessalonians (1Th)'', ''2 Thessalonians (2Th)'', ''1 Timothy (1Ti)'',
      ''2 Timothy (2Ti)'', ''Titus (Tit)'', ''Philemon (Phm)'', ''Hebrews (Heb)'', ''James (Jam)'',
      ''1 Peter (1Pe)'', ''2 Peter (2Pe)'', ''1 John (1Jo)'', ''2 John (2Jo)'', ''3 John (3Jo)'',
      ''Jude (Jud)'', ''Revelation (Rev)'']"

text \<open>\<open>enumerate(xs)\<close>: the elements with their indices from 0.\<close>

definition enumerate_py :: "'a list \<Rightarrow> (nat \<times> 'a) list" where
  "enumerate_py xs = zip [0 ..< length xs] xs"

definition bible_books :: "pystr" where
  "bible_books =
     lit ''Bible Books ('' @ str_int (int (length books)) @ lit '' total):\<newline>\<newline>''
     @ join (lit ''\<newline>'')
         (map (\<lambda>(i, book). fmt_2d (int i + 1) @ lit ''. '' @ book) (enumerate_py books))"

text \<open>The dict \<open>translations\<close>, in the order of its entries.\<close>

definition translations_dict :: "(pystr \<times> pystr) list" where
  "translations_dict =
     [(lit ''KJV'', lit ''King James Version (1769)''),
      (lit ''ASV'', lit ''American Standard Version (1901)''),
      (lit ''BBE'', lit ''Bible in Basic English (1965)''),
      (lit ''WEB'', lit ''World English Bible''),
      (lit ''YLT'', lit ''Youngs Literal Translation (1898)''),
      (lit ''DARBY'', lit ''Darby Translation (1890)'')]"

definition bible_translations :: "pystr" where
  "bible_translations =
     lit ''Available Bible Translations:\<newline>\<newline>''
     @ join (lit ''\<newline>'') (map (\<lambda>(code, name). code @ lit '': '' @ name) translations_dict)
     @ lit ''\<newline>\<newline>Note: Use the code (e.g., ''
     @ [39] @ lit ''KJV'' @ [39]
     @ lit '') when specifying translation in tools.''"

section \<open>The prompts\<close>

definition bible_study :: "pystr \<Rightarrow> pystr \<Rightarrow> pystr" where
  "bible_study topic_or_passage study_level =
     lit ''Create a comprehensive Bible study guide for: '' @ topic_or_passage
     @ lit ''\<newline>\<newline>Study Level: '' @ study_level
     @ lit ''\<newline>\<newline>Please include:\<newline>''
     @ lit ''1. **Key Verses**: 3-5 relevant Bible verses with references\<newline>''
     @ lit ''2. **Context**: Historical and cultural background\<newline>''
     @ lit ''3. **Main Themes**: Core theological concepts\<newline>''
     @ lit ''4. **Application**: How this applies to modern life\<newline>''
     @ lit ''5. **Discussion Questions**: 3-4 thought-provoking questions\<newline>''
     @ lit ''6. **Prayer Points**: Suggested areas for prayer\<newline>''
     @ lit ''7. **Further Study**: Related passages or topics to explore\<newline>\<newline>''
     @ lit ''Make this study guide practical and accessible for personal or group study.''"

definition daily_reflection :: "pystr \<Rightarrow> pystr \<Rightarrow> pystr" where
  "daily_reflection verse_or_theme focus_area =
     lit ''Daily Devotional Reflection\<newline>\<newline>**Scripture Focus**: '' @ verse_or_theme
     @ lit ''\<newline>**Life Focus**: '' @ focus_area
     @ lit ''\<newline>\<newline>Create a meaningful daily devotional that includes:\<newline>\<newline>''
     @ lit ''1. **Opening Prayer**: A brief prayer to center the heart\<newline>''
     @ lit ''2. **Scripture Reading**: The full text of the verse(s)\<newline>''
     @ lit ''3. **Reflection**: 2-3 paragraphs exploring the meaning and relevance\<newline>''
     @ lit ''4. **Personal Application**: Specific ways to apply this truth today\<newline>''
     @ lit ''5. **Closing Prayer**: A prayer incorporating the day''
     @ [39] @ lit ''s lesson\<newline>''
     @ lit ''6. **Action Step**: One concrete step to take today\<newline>\<newline>''
     @ lit ''Write this in a warm, encouraging tone that speaks to both heart and mind. Make it practical for someone''
     @ [39] @ lit ''s daily walk with God.''"

section \<open>Upstream responses used in the evaluations\<close>

text \<open>
  The evaluations below fix the parameter \<open>repr\<close> to a function that prints
  nothing; none of them formats a float, a list or a dict.
\<close>

definition repr0 :: "json \<Rightarrow> pystr" where
  "repr0 v = []"

text \<open>An upstream that answers every request with status 200 and the given body.\<close>

definition upstream_ok :: "json \<Rightarrow> http" where
  "upstream_ok data = (\<lambda>url. Inr \<lparr>status_code = 200, body = Some data\<rparr>)"

text \<open>An upstream that answers every request with the given status and no JSON body.\<close>

definition upstream_status :: "int \<Rightarrow> http" where
  "upstream_status code = (\<lambda>url. Inr \<lparr>status_code = code, body = None\<rparr>)"

definition john_3_16 :: json where
  "john_3_16 = JObj
     [(lit ''reference'', JStr (lit ''John 3:16'')),
      (lit ''text'', JStr (lit ''For God so loved the world.\<newline>'')),
      (lit ''translation_id'', JStr (lit ''kjv'')),
      (lit ''translation_name'', JStr (lit ''King James Version''))]"

definition not_found :: json where
  "not_found = JObj [(lit ''error'', JStr (lit ''not found''))]"

text \<open>
  An upstream that answers with status 200 and the given body at one URL and is
  unreachable at every other, and an upstream that is unreachable everywhere.
\<close>

definition upstream_only :: "pystr \<Rightarrow> json \<Rightarrow> http" where
  "upstream_only u data =
     (\<lambda>url. if url = u then Inr \<lparr>status_code = 200, body = Some data\<rparr> else Inl RequestException)"

definition upstream_down :: http where
  "upstream_down = (\<lambda>url. Inl RequestException)"

section \<open>Notions the properties are stated with\<close>

text \<open>
  A tool run reports a status when it returns a string, rather than raising, and the
  string contains \<open>HTTP\<close>, a space and the decimal status code.
\<close>

definition reports_status :: "int \<Rightarrow> error + pystr \<Rightarrow> bool" where
  "reports_status code result =
     (case result of Inl e \<Rightarrow> False | Inr s \<Rightarrow> sublist (lit ''HTTP '' @ str_int code) s)"

text \<open>
  An entry of the book list carries an abbreviation when it is a name followed by a
  space and three characters in parentheses.
\<close>

definition has_abbreviation :: "pystr \<Rightarrow> bool" where
  "has_abbreviation book \<longleftrightarrow>
     6 < length book
     \<and> drop (length book - 6) book
         = lit '' ('' @ take 3 (drop (length book - 4) book) @ lit '')''"

text \<open>
  A search result as the upstream documents it: an object with a \<open>reference\<close> and a
  string \<open>text\<close>. \<open>result_fields\<close> reads the two off, and \<open>entry_text\<close> is the entry
  \<open>{reference}: {text stripped}\<close> made of them.
\<close>

definition result_fields :: "json \<Rightarrow> (json \<times> pystr) option" where
  "result_fields v =
     (case v of
        JObj kvs \<Rightarrow>
          (case map_of kvs (lit ''reference'') of
             None \<Rightarrow> None
           | Some r \<Rightarrow>
               (case map_of kvs (lit ''text'') of Some (JStr x) \<Rightarrow> Some (r, x) | _ \<Rightarrow> None))
      | _ \<Rightarrow> None)"

definition entry_text :: "(json \<Rightarrow> pystr) \<Rightarrow> json \<Rightarrow> pystr" where
  "entry_text repr v =
     (case result_fields v of
        None \<Rightarrow> []
      | Some (r, x) \<Rightarrow> fstr repr r @ lit '': '' @ strip x)"

text \<open>Five search results, and the entries they are formatted to.\<close>

definition five_results :: json where
  "five_results = JList
     [JObj [(lit ''reference'', JStr (lit ''John 3:16'')), (lit ''text'', JStr (lit ''For God so loved the world.\<newline>''))],
      JObj [(lit ''reference'', JStr (lit ''1 John 4:8'')), (lit ''text'', JStr (lit ''God is love.\<newline>''))],
      JObj [(lit ''reference'', JStr (lit ''1 John 4:19'')), (lit ''text'', JStr (lit ''We love him.\<newline>''))],
      JObj [(lit ''reference'', JStr (lit ''John 15:12'')), (lit ''text'', JStr (lit '' Love one another.''))],
      JObj [(lit ''reference'', JStr (lit ''Romans 13:10'')), (lit ''text'', JStr (lit ''Love worketh no ill.''))]]"

definition five_entries :: "pystr list" where
  "five_entries = map lit
     [''John 3:16: For God so loved the world.'',
      ''1 John 4:8: God is love.'',
      ''1 John 4:19: We love him.'',
      ''John 15:12: Love one another.'',
      ''Romans 13:10: Love worketh no ill.'']"

text \<open>
  A verse of a chapter as the upstream documents it: an object with a \<open>verse\<close> number
  and a \<open>text\<close>. \<open>verse_text\<close> is its rendering \<open>{verse_number}. {verse_text}\<close>; the verse
  is plain when neither field is rendered with a newline (code point 10) in it.
\<close>

definition verse_fields :: "json \<Rightarrow> (json \<times> json) option" where
  "verse_fields v =
     (case v of
        JObj kvs \<Rightarrow>
          (case map_of kvs (lit ''verse'') of
             None \<Rightarrow> None
           | Some n \<Rightarrow>
               (case map_of kvs (lit ''text'') of None \<Rightarrow> None | Some x \<Rightarrow> Some (n, x)))
      | _ \<Rightarrow> None)"

definition verse_text :: "(json \<Rightarrow> pystr) \<Rightarrow> json \<Rightarrow> pystr" where
  "verse_text repr v =
     (case verse_fields v of
        None \<Rightarrow> []
      | Some (n, x) \<Rightarrow> fstr repr n @ lit ''. '' @ fstr repr x)"

definition plain_verse :: "(json \<Rightarrow> pystr) \<Rightarrow> json \<Rightarrow> bool" where
  "plain_verse repr v =
     (case verse_fields v of
        None \<Rightarrow> False
      | Some (n, x) \<Rightarrow> 10 \<notin> set (fstr repr n) \<and> 10 \<notin> set (fstr repr x))"

text \<open>A chapter of two verses, and the string \<open>get_chapter\<close> returns for it.\<close>

definition psalm_117 :: json where
  "psalm_117 = JObj
     [(lit ''reference'', JStr (lit ''Psalm 117'')),
      (lit ''verses'', JList
         [JObj [(lit ''book_name'', JStr (lit ''Psalms'')), (lit ''chapter'', JInt 117),
                (lit ''verse'', JInt 1), (lit ''text'', JStr (lit ''O praise the LORD, all ye nations.''))],
          JObj [(lit ''book_name'', JStr (lit ''Psalms'')), (lit ''chapter'', JInt 117),
                (lit ''verse'', JInt 2), (lit ''text'', JStr (lit ''Praise ye the LORD.''))]]),
      (lit ''translation_name'', JStr (lit ''King James Version''))]"

definition psalm_117_text :: pystr where
  "psalm_117_text =
     lit ''Psalm 117 (King James Version):\<newline>\<newline>1. O praise the LORD, all ye nations.\<newline>2. Praise ye the LORD.''"

text \<open>
  The same chapter with every verse text ending in a newline, as the upstream sends
  it, and the string \<open>get_chapter\<close> returns for it.
\<close>

definition psalm_117_upstream :: json where
  "psalm_117_upstream = JObj
     [(lit ''reference'', JStr (lit ''Psalm 117'')),
      (lit ''verses'', JList
         [JObj [(lit ''book_name'', JStr (lit ''Psalms'')), (lit ''chapter'', JInt 117),
                (lit ''verse'', JInt 1), (lit ''text'', JStr (lit ''O praise the LORD, all ye nations.\<newline>''))],
          JObj [(lit ''book_name'', JStr (lit ''Psalms'')), (lit ''chapter'', JInt 117),
                (lit ''verse'', JInt 2), (lit ''text'', JStr (lit ''Praise ye the LORD.\<newline>''))]]),
      (lit ''translation_name'', JStr (lit ''King James Version''))]"

definition psalm_117_upstream_text :: pystr where
  "psalm_117_upstream_text =
     lit ''Psalm 117 (King James Version):\<newline>\<newline>1. O praise the LORD, all ye nations.\<newline>\<newline>2. Praise ye the LORD.''"

section \<open>The server\<close>

text \<open>
  The decorators register four tools, two resources and two prompts with the server; a
  call names one of them and gives its arguments. Besides its arguments a call has the
  world around it to read: the upstream behind \<open>requests.get\<close>, the draw of the random
  generator, and the interpreter's rendering \<open>repr\<close>. \<open>invoke\<close> runs a call in a world.
\<close>

datatype call =
    GetVerse pystr "pystr option"
  | SearchVerses pystr "int option"
  | GetChapter pystr "pystr option"
  | GetRandomVerse "pystr option"
  | BibleBooks
  | BibleTranslations
  | BibleStudy pystr pystr
  | DailyReflection pystr pystr

fun invoke :: "(json \<Rightarrow> pystr) \<Rightarrow> http \<Rightarrow> nat \<Rightarrow> call \<Rightarrow> error + pystr" where
  "invoke repr requests_get draw (GetVerse reference translation) =
     get_verse repr requests_get reference translation"
| "invoke repr requests_get draw (SearchVerses query limit) =
     search_verses repr requests_get query limit"
| "invoke repr requests_get draw (GetChapter book_chapter translation) =
     get_chapter repr requests_get book_chapter translation"
| "invoke repr requests_get draw (GetRandomVerse translation) =
     get_random_verse repr requests_get draw translation"
| "invoke repr requests_get draw BibleBooks = Inr bible_books"
| "invoke repr requests_get draw BibleTranslations = Inr bible_translations"
| "invoke repr requests_get draw (BibleStudy topic_or_passage study_level) =
     Inr (bible_study topic_or_passage study_level)"
| "invoke repr requests_get draw (DailyReflection verse_or_theme focus_area) =
     Inr (daily_reflection verse_or_theme focus_area)"

fun prompt_or_resource :: "call \<Rightarrow> bool" where
  "prompt_or_resource BibleBooks = True"
| "prompt_or_resource BibleTranslations = True"
| "prompt_or_resource (BibleStudy topic_or_passage study_level) = True"
| "prompt_or_resource (DailyReflection verse_or_theme focus_area) = True"
| "prompt_or_resource _ = False"

section \<open>Properties\<close>

subsection \<open>The default translation\<close>

lemma or_str_falsy: "translation = None \<or> translation = Some [] \<Longrightarrow> or_str translation d = d"
  by (auto simp: or_str_def)

lemma inspiring_verses_not_empty: "inspiring_verses \<noteq> []"
  by (simp add: inspiring_verses_def)

lemma get_verse_request:
  "requests_get (get_verse_url reference translation) = Inl e \<Longrightarrow>
     get_verse repr requests_get reference translation = Inl e"
  "requests_get (get_verse_url reference translation) = other (get_verse_url reference translation) \<Longrightarrow>
     get_verse repr requests_get reference translation = get_verse repr other reference translation"
  by (simp_all add: get_verse_def)

lemma get_chapter_request:
  "requests_get (get_chapter_url book_chapter translation) = Inl e \<Longrightarrow>
     get_chapter repr requests_get book_chapter translation = Inl e"
  "requests_get (get_chapter_url book_chapter translation) = other (get_chapter_url book_chapter translation) \<Longrightarrow>
     get_chapter repr requests_get book_chapter translation = get_chapter repr other book_chapter translation"
  by (simp_all add: get_chapter_def)

lemma get_random_verse_request:
  assumes "get_random_verse_url draw translation = Inr url"
  shows "requests_get url = Inl e \<Longrightarrow> get_random_verse repr requests_get draw translation = Inl e"
    and "requests_get url = other url \<Longrightarrow>
           get_random_verse repr requests_get draw translation = get_random_verse repr other draw translation"
  using assms by (simp_all add: get_random_verse_def)

lemma get_random_verse_url_eq:
  "get_random_verse_url draw translation
     = Inr (lit ''https://bible-api.com/'' @ inspiring_verses ! (draw mod length inspiring_verses)
            @ lit ''?translation='' @ or_str translation (lit ''kjv''))"
  using inspiring_verses_not_empty
  by (simp add: get_random_verse_url_def random_choice_def)

text \<open>
  C7. When the translation argument of \<open>get_verse\<close>, \<open>get_chapter\<close> or
  \<open>get_random_verse\<close> is falsy (\<open>None\<close> or the empty string), the request of the call
  goes to the URL that ends in \<open>?translation=kjv\<close>, with the reference (for
  \<open>get_random_verse\<close> the drawn entry of \<open>inspiring_verses\<close>) before it: when
  \<open>requests.get\<close> fails at that URL the tool fails with the same exception, and the
  result of the tool is the same under any two upstreams that agree at that URL.
\<close>

theorem falsy_translation_is_kjv:
  assumes "translation = None \<or> translation = Some []"
    and "verse_ref = inspiring_verses ! (draw mod length inspiring_verses)"
  shows "(requests_get (lit ''https://bible-api.com/'' @ reference @ lit ''?translation=kjv'') = Inl e
            \<longrightarrow> get_verse repr requests_get reference translation = Inl e)
       \<and> (requests_get (lit ''https://bible-api.com/'' @ reference @ lit ''?translation=kjv'')
            = other (lit ''https://bible-api.com/'' @ reference @ lit ''?translation=kjv'')
            \<longrightarrow> get_verse repr requests_get reference translation
                  = get_verse repr other reference translation)
       \<and> (requests_get (lit ''https://bible-api.com/'' @ book_chapter @ lit ''?translation=kjv'') = Inl e
            \<longrightarrow> get_chapter repr requests_get book_chapter translation = Inl e)
       \<and> (requests_get (lit ''https://bible-api.com/'' @ book_chapter @ lit ''?translation=kjv'')
            = other (lit ''https://bible-api.com/'' @ book_chapter @ lit ''?translation=kjv'')
            \<longrightarrow> get_chapter repr requests_get book_chapter translation
                  = get_chapter repr other book_chapter translation)
       \<and> (requests_get (lit ''https://bible-api.com/'' @ verse_ref @ lit ''?translation=kjv'') = Inl e
            \<longrightarrow> get_random_verse repr requests_get draw translation = Inl e)
       \<and> (requests_get (lit ''https://bible-api.com/'' @ verse_ref @ lit ''?translation=kjv'')
            = other (lit ''https://bible-api.com/'' @ verse_ref @ lit ''?translation=kjv'')
            \<longrightarrow> get_random_verse repr requests_get draw translation
                  = get_random_verse repr other draw translation)"
proof -
  have k: "or_str translation (lit ''kjv'') = lit ''kjv''"
    using assms(1) by (rule or_str_falsy)
  have kk: "lit ''?translation='' @ lit ''kjv'' = lit ''?translation=kjv''"
    by (simp add: lit_def)
  have v: "get_verse_url reference translation
             = lit ''https://bible-api.com/'' @ reference @ lit ''?translation=kjv''"
    by (simp add: get_verse_url_def k kk)
  have c: "get_chapter_url book_chapter translation
             = lit ''https://bible-api.com/'' @ book_chapter @ lit ''?translation=kjv''"
    by (simp add: get_chapter_url_def k kk)
  have r: "get_random_verse_url draw translation
             = Inr (lit ''https://bible-api.com/'' @ verse_ref @ lit ''?translation=kjv'')"
    by (simp add: get_random_verse_url_eq assms(2) k kk)
  show ?thesis
    using get_verse_request[of requests_get reference translation, unfolded v]
      get_chapter_request[of requests_get book_chapter translation, unfolded c]
      get_random_verse_request[OF r]
    by blast
qed

theorem falsy_translation_is_kjv_witness:
  "get_verse repr0
     (upstream_only (lit ''https://bible-api.com/John 3:16?translation=kjv'') john_3_16)
     (lit ''John 3:16'') (Some [])
     = Inr (lit ''John 3:16 (King James Version):\<newline>For God so loved the world.'')
   \<and> get_chapter repr0
     (upstream_only (lit ''https://bible-api.com/Psalm 151?translation=kjv'') not_found)
     (lit ''Psalm 151'') None
     = Inr (lit ''Error: not found'')
   \<and> get_random_verse repr0
     (upstream_only (lit ''https://bible-api.com/John 3:16?translation=kjv'') john_3_16) 15 (Some [])
     = Inr (lit ''Random Verse - John 3:16 (King James Version):\<newline>For God so loved the world.'')
   \<and> get_verse repr0 upstream_down (lit ''John 3:16'') (Some []) = Inl RequestException"
proof -
  have s: "strip (lit ''For God so loved the world.\<newline>'') = lit ''For God so loved the world.''"
    by (simp add: strip_def lstrip_def rstrip_def is_space_def lit_def)
  have a: "get_verse repr0 (upstream_ok john_3_16) (lit ''John 3:16'') (Some [])
             = Inr (lit ''John 3:16 (King James Version):\<newline>For God so loved the world.'')"
    by (simp add: get_verse_def upstream_ok_def response_json_def john_3_16_def s)
       (simp add: lit_def)
  have b: "get_chapter repr0 (upstream_ok not_found) (lit ''Psalm 151'') None
             = Inr (lit ''Error: not found'')"
    by (simp add: get_chapter_def upstream_ok_def response_json_def not_found_def lit_def)
  have c: "get_random_verse repr0 (upstream_ok john_3_16) 15 (Some [])
             = Inr (lit ''Random Verse - John 3:16 (King James Version):\<newline>For God so loved the world.'')"
    by (simp add: get_random_verse_def get_random_verse_url_eq upstream_ok_def response_json_def
        john_3_16_def s)
       (simp add: lit_def)
  have i: "inspiring_verses ! (15 mod length inspiring_verses) = lit ''John 3:16''"
    by (simp add: inspiring_verses_def)
  have j: "lit ''https://bible-api.com/'' @ lit ''John 3:16'' @ lit ''?translation=kjv''
             = lit ''https://bible-api.com/John 3:16?translation=kjv''"
    "lit ''https://bible-api.com/'' @ lit ''Psalm 151'' @ lit ''?translation=kjv''
             = lit ''https://bible-api.com/Psalm 151?translation=kjv''"
    by (simp_all add: lit_def)
  have "get_verse repr0
     (upstream_only (lit ''https://bible-api.com/John 3:16?translation=kjv'') john_3_16)
     (lit ''John 3:16'') (Some []) = get_verse repr0 (upstream_ok john_3_16) (lit ''John 3:16'') (Some [])"
    and "get_random_verse repr0
     (upstream_only (lit ''https://bible-api.com/John 3:16?translation=kjv'') john_3_16) 15 (Some [])
     = get_random_verse repr0 (upstream_ok john_3_16) 15 (Some [])"
    using falsy_translation_is_kjv [where translation = "Some []" and draw = 15
        and verse_ref = "lit ''John 3:16''" and reference = "lit ''John 3:16''"
        and requests_get = "upstream_only (lit ''https://bible-api.com/John 3:16?translation=kjv'') john_3_16"
        and other = "upstream_ok john_3_16" and repr = repr0] i
    by (simp_all add: j upstream_only_def upstream_ok_def)
  moreover have "get_chapter repr0
     (upstream_only (lit ''https://bible-api.com/Psalm 151?translation=kjv'') not_found)
     (lit ''Psalm 151'') None = get_chapter repr0 (upstream_ok not_found) (lit ''Psalm 151'') None"
    using falsy_translation_is_kjv [where translation = None and draw = 15
        and verse_ref = "lit ''John 3:16''" and book_chapter = "lit ''Psalm 151''"
        and requests_get = "upstream_only (lit ''https://bible-api.com/Psalm 151?translation=kjv'') not_found"
        and other = "upstream_ok not_found" and repr = repr0] i
    by (simp add: j upstream_only_def upstream_ok_def)
  moreover have "get_verse repr0 upstream_down (lit ''John 3:16'') (Some []) = Inl RequestException"
    using falsy_translation_is_kjv [where translation = "Some []" and draw = 15
        and verse_ref = "lit ''John 3:16''" and reference = "lit ''John 3:16''"
        and requests_get = upstream_down and e = RequestException and repr = repr0] i
    by (simp add: upstream_down_def)
  ultimately show ?thesis
    by (simp only: a b c simp_thms)
qed

subsection \<open>A status other than 200\<close>

lemma reports_status_suffix: "reports_status code (Inr (pre @ lit ''HTTP '' @ str_int code))"
  unfolding reports_status_def sum.case
  by (metis append.assoc append_Nil2 sublist_appendI)

lemma get_verse_non_200:
  assumes "requests_get (get_verse_url reference translation) = Inr response"
    and "status_code response \<noteq> 200"
  shows "get_verse repr requests_get reference translation
           = Inr (lit ''Error fetching verse: '' @ lit ''HTTP '' @ str_int (status_code response))"
  using assms by (simp add: get_verse_def lit_def)

lemma search_verses_non_200:
  assumes "requests_get (search_verses_url query limit) = Inr response"
    and "status_code response \<noteq> 200"
  shows "search_verses repr requests_get query limit
           = Inr (lit ''Error searching verses: '' @ lit ''HTTP '' @ str_int (status_code response))"
  using assms by (simp add: search_verses_def lit_def)

lemma get_chapter_non_200:
  assumes "requests_get (get_chapter_url book_chapter translation) = Inr response"
    and "status_code response \<noteq> 200"
  shows "get_chapter repr requests_get book_chapter translation
           = Inr (lit ''Error fetching chapter: '' @ lit ''HTTP '' @ str_int (status_code response))"
  using assms by (simp add: get_chapter_def lit_def)

lemma get_random_verse_non_200:
  assumes "and_then (get_random_verse_url draw translation) requests_get = Inr response"
    and "status_code response \<noteq> 200"
  shows "get_random_verse repr requests_get draw translation
           = Inr (lit ''Error fetching random verse: '' @ lit ''HTTP '' @ str_int (status_code response))"
proof (cases "get_random_verse_url draw translation")
  case (Inl e)
  with assms(1) show ?thesis by simp
next
  case (Inr url)
  with assms show ?thesis by (simp add: get_random_verse_def lit_def)
qed

text \<open>
  C4. When the upstream answers with a status other than 200, each of the four tools
  returns normally, and the string it returns contains \<open>HTTP\<close>, a space and the
  decimal status code.
\<close>

theorem non_200_reports_status:
  assumes "status_code response \<noteq> 200"
  shows "(requests_get (get_verse_url reference translation) = Inr response \<longrightarrow>
            reports_status (status_code response) (get_verse repr requests_get reference translation))
       \<and> (requests_get (search_verses_url query limit) = Inr response \<longrightarrow>
            reports_status (status_code response) (search_verses repr requests_get query limit))
       \<and> (requests_get (get_chapter_url book_chapter translation) = Inr response \<longrightarrow>
            reports_status (status_code response) (get_chapter repr requests_get book_chapter translation))
       \<and> (and_then (get_random_verse_url draw translation) requests_get = Inr response \<longrightarrow>
            reports_status (status_code response) (get_random_verse repr requests_get draw translation))"
proof (intro conjI impI)
  assume "requests_get (get_verse_url reference translation) = Inr response"
  then show "reports_status (status_code response) (get_verse repr requests_get reference translation)"
    using assms by (simp add: get_verse_non_200 reports_status_suffix)
next
  assume "requests_get (search_verses_url query limit) = Inr response"
  then show "reports_status (status_code response) (search_verses repr requests_get query limit)"
    using assms by (simp add: search_verses_non_200 reports_status_suffix)
next
  assume "requests_get (get_chapter_url book_chapter translation) = Inr response"
  then show "reports_status (status_code response) (get_chapter repr requests_get book_chapter translation)"
    using assms by (simp add: get_chapter_non_200 reports_status_suffix)
next
  assume "and_then (get_random_verse_url draw translation) requests_get = Inr response"
  then show "reports_status (status_code response) (get_random_verse repr requests_get draw translation)"
    using assms by (simp add: get_random_verse_non_200 reports_status_suffix)
qed

theorem non_200_reports_status_witness:
  "get_verse repr0 (upstream_status 404) (lit ''John 99:99'') None
     = Inr (lit ''Error fetching verse: HTTP 404'')
   \<and> reports_status 404 (get_verse repr0 (upstream_status 404) (lit ''John 99:99'') None)
   \<and> reports_status 404 (search_verses repr0 (upstream_status 404) (lit ''love'') (Some 2))
   \<and> reports_status 404 (get_chapter repr0 (upstream_status 404) (lit ''Psalm 151'') None)
   \<and> reports_status 404 (get_random_verse repr0 (upstream_status 404) 7 None)"
proof -
  have u: "and_then (get_random_verse_url 7 None) (upstream_status 404)
             = Inr \<lparr>status_code = 404, body = None\<rparr>"
    by (simp add: get_random_verse_url_def random_choice_def inspiring_verses_def upstream_status_def)
  have v: "get_verse repr0 (upstream_status 404) (lit ''John 99:99'') None
     = Inr (lit ''Error fetching verse: HTTP 404'')"
    by (simp add: get_verse_def upstream_status_def str_int_def str_nat.simps lit_def)
  show ?thesis
    using non_200_reports_status [where response = "\<lparr>status_code = 404, body = None\<rparr>"
        and requests_get = "upstream_status 404" and reference = "lit ''John 99:99''"
        and translation = None and query = "lit ''love''" and limit = "Some 2" and repr = repr0
        and book_chapter = "lit ''Psalm 151''" and draw = 7] u v
    by (simp add: upstream_status_def)
qed

subsection \<open>A search without results\<close>

text \<open>
  C6. When the upstream answers a search with status 200 and a body that is falsy (the
  empty list, and likewise \<open>null\<close>, an empty object, an empty string, zero or
  \<open>false\<close>), \<open>search_verses\<close> returns exactly \<open>No verses found containing '{query}'\<close>,
  with nothing after the closing apostrophe (code point 39).
\<close>

theorem search_none_found:
  assumes "requests_get (search_verses_url query limit) = Inr response"
    and "status_code response = 200"
    and "body response = Some data"
    and "\<not> truthy data"
  shows "search_verses repr requests_get query limit
           = Inr (lit ''No verses found containing '' @ [39] @ query @ [39])"
  using assms by (simp add: search_verses_def response_json_def)

theorem search_none_found_witness:
  "search_verses repr0 (upstream_ok (JList [])) (lit ''xyzzy'') (Some 5)
     = Inr (lit ''No verses found containing '' @ [39] @ lit ''xyzzy'' @ [39])"
  using search_none_found [where requests_get = "upstream_ok (JList [])" and query = "lit ''xyzzy''"
      and limit = "Some 5" and response = "\<lparr>status_code = 200, body = Some (JList [])\<rparr>"
      and data = "JList []" and repr = repr0]
  by (simp add: upstream_ok_def)

subsection \<open>A verse found\<close>

text \<open>
  C1. When the upstream answers \<open>get_verse\<close> with status 200 and a JSON object that has
  no \<open>error\<close> key and carries \<open>reference\<close>, \<open>translation_name\<close> and a string
  \<open>text\<close>, the tool returns the reference, then \<open> (\<close>, the translation name, \<open>):\<close>,
  a newline and the text stripped of surrounding whitespace. So the result starts with
  the reference followed by \<open> (\<close>; a reference that is a JSON string appears as it is.
\<close>

theorem get_verse_success:
  assumes "requests_get (get_verse_url reference translation) = Inr response"
    and "status_code response = 200"
    and "body response = Some (JObj kvs)"
    and "map_of kvs (lit ''error'') = None"
    and "map_of kvs (lit ''reference'') = Some r"
    and "map_of kvs (lit ''translation_name'') = Some t"
    and "map_of kvs (lit ''text'') = Some (JStr x)"
  shows "get_verse repr requests_get reference translation
           = Inr (fstr repr r @ lit '' ('' @ fstr repr t @ lit ''):'' @ [10] @ strip x)
       \<and> (\<exists>rest. get_verse repr requests_get reference translation
                    = Inr (fstr repr r @ lit '' ('' @ rest))
       \<and> (\<forall>s. r = JStr s \<longrightarrow> fstr repr r = s)"
  using assms by (simp add: get_verse_def response_json_def lit_def)

theorem get_verse_success_witness:
  "get_verse repr0 (upstream_ok john_3_16) (lit ''John 3:16'') None
     = Inr (lit ''John 3:16 (King James Version):\<newline>For God so loved the world.'')"
proof -
  have s: "strip (lit ''For God so loved the world.\<newline>'') = lit ''For God so loved the world.''"
    by (simp add: strip_def lstrip_def rstrip_def is_space_def lit_def)
  show ?thesis
    using get_verse_success [where requests_get = "upstream_ok john_3_16"
      and reference = "lit ''John 3:16''" and translation = None
      and response = "\<lparr>status_code = 200, body = Some john_3_16\<rparr>"
      and kvs = "[(lit ''reference'', JStr (lit ''John 3:16'')),
      (lit ''text'', JStr (lit ''For God so loved the world.\<newline>'')),
      (lit ''translation_id'', JStr (lit ''kjv'')),
      (lit ''translation_name'', JStr (lit ''King James Version''))]"
      and r = "JStr (lit ''John 3:16'')" and t = "JStr (lit ''King James Version'')"
      and x = "lit ''For God so loved the world.\<newline>''" and repr = repr0] s
    by (simp add: upstream_ok_def john_3_16_def lit_def)
qed

subsection \<open>An upstream error behind status 200\<close>

text \<open>
  C2. The claim that \<open>get_random_verse\<close> answers a status 200 body with an \<open>error\<close>
  key by returning \<open>Error: {error}\<close> does not hold of the code: the tool never looks for
  the key. On the body \<open>{"error": "not found"}\<close> reading \<open>data['reference']\<close> raises
  \<open>KeyError\<close>, where \<open>get_verse\<close> returns \<open>Error: not found\<close> for the same answer.
\<close>

theorem get_random_verse_error_body:
  "get_random_verse repr0 (upstream_ok not_found) 3 None = Inl (KeyError (lit ''reference''))
   \<and> get_verse repr0 (upstream_ok not_found) (lit ''John 3:16'') None = Inr (lit ''Error: not found'')"
  by (simp add: get_random_verse_def get_random_verse_url_def random_choice_def
      inspiring_verses_def get_verse_def upstream_ok_def not_found_def response_json_def lit_def)

subsection \<open>The reference of a random verse\<close>

lemma get_random_verse_ok:
  assumes "get_random_verse_url draw translation = Inr url"
    and "requests_get url = Inr response"
    and "status_code response = 200"
    and "body response = Some (JObj kvs)"
    and "map_of kvs (lit ''reference'') = Some r"
    and "map_of kvs (lit ''translation_name'') = Some t"
    and "map_of kvs (lit ''text'') = Some (JStr x)"
  shows "get_random_verse repr requests_get draw translation
           = Inr (lit ''Random Verse - '' @ fstr repr r @ lit '' ('' @ fstr repr t @ lit ''):''
                  @ [10] @ strip x)"
  using assms by (simp add: get_random_verse_def response_json_def lit_def)

text \<open>
  C8. Whatever the generator draws, the reference in the URL that \<open>get_random_verse\<close>
  requests is an entry of \<open>inspiring_verses\<close>, the list of these 12 references: a
  failure of \<open>requests.get\<close> at that URL is the failure of the tool, the result depends
  on the upstream at that URL only, and a status 200 answer there with \<open>reference\<close>,
  \<open>translation_name\<close> and a string \<open>text\<close> is returned as the random verse. The list is
  the same for every call: each of its entries is the reference of some draw, whatever
  was called before.
\<close>

theorem random_reference_from_list:
  assumes "verse_ref = inspiring_verses ! (draw mod length inspiring_verses)"
    and "url = lit ''https://bible-api.com/'' @ verse_ref @ lit ''?translation=''
                 @ or_str translation (lit ''kjv'')"
  shows "verse_ref \<in> set inspiring_verses
       \<and> inspiring_verses = map lit
           [''Jeremiah 29:11'', ''Romans 8:28'', ''Philippians 4:13'', ''John 3:16'',
            ''Psalm 23:1'', ''Isaiah 40:31'', ''Proverbs 3:5-6'', ''Matthew 28:20'',
            ''Romans 8:31'', ''Ephesians 2:8-9'', ''Psalm 46:1'', ''Isaiah 41:10'']
       \<and> (requests_get url = Inl e
            \<longrightarrow> get_random_verse repr requests_get draw translation = Inl e)
       \<and> (requests_get url = other url
            \<longrightarrow> get_random_verse repr requests_get draw translation
                  = get_random_verse repr other draw translation)
       \<and> (requests_get url = Inr response \<and> status_code response = 200
            \<and> body response = Some (JObj kvs)
            \<and> map_of kvs (lit ''reference'') = Some r
            \<and> map_of kvs (lit ''translation_name'') = Some t
            \<and> map_of kvs (lit ''text'') = Some (JStr x)
            \<longrightarrow> get_random_verse repr requests_get draw translation
                  = Inr (lit ''Random Verse - '' @ fstr repr r @ lit '' ('' @ fstr repr t
                         @ lit ''):'' @ [10] @ strip x))
       \<and> (\<forall>entry \<in> set inspiring_verses. \<exists>d.
             get_random_verse_url d translation
               = Inr (lit ''https://bible-api.com/'' @ entry @ lit ''?translation=''
                      @ or_str translation (lit ''kjv'')))"
proof -
  have u: "get_random_verse_url draw translation = Inr url"
    unfolding assms by (rule get_random_verse_url_eq)
  have m: "verse_ref \<in> set inspiring_verses"
    unfolding assms(1) using inspiring_verses_not_empty by (intro nth_mem) simp
  have l: "inspiring_verses = map lit
           [''Jeremiah 29:11'', ''Romans 8:28'', ''Philippians 4:13'', ''John 3:16'',
            ''Psalm 23:1'', ''Isaiah 40:31'', ''Proverbs 3:5-6'', ''Matthew 28:20'',
            ''Romans 8:31'', ''Ephesians 2:8-9'', ''Psalm 46:1'', ''Isaiah 41:10'']"
    by (simp add: inspiring_verses_def)
  have every: "\<forall>entry \<in> set inspiring_verses. \<exists>d.
             get_random_verse_url d translation
               = Inr (lit ''https://bible-api.com/'' @ entry @ lit ''?translation=''
                      @ or_str translation (lit ''kjv''))"
  proof
    fix entry assume "entry \<in> set inspiring_verses"
    then obtain i where i: "i < length inspiring_verses" "inspiring_verses ! i = entry"
      by (metis in_set_conv_nth)
    have "get_random_verse_url i translation
               = Inr (lit ''https://bible-api.com/''
                      @ inspiring_verses ! (i mod length inspiring_verses)
                      @ lit ''?translation='' @ or_str translation (lit ''kjv''))"
      by (rule get_random_verse_url_eq)
    then have "get_random_verse_url i translation
               = Inr (lit ''https://bible-api.com/'' @ entry @ lit ''?translation=''
                      @ or_str translation (lit ''kjv''))"
      by (simp only: mod_less[OF i(1)] i(2))
    then show "\<exists>d. get_random_verse_url d translation
               = Inr (lit ''https://bible-api.com/'' @ entry @ lit ''?translation=''
                      @ or_str translation (lit ''kjv''))"
      by (rule exI[of "\<lambda>d. get_random_verse_url d translation
               = Inr (lit ''https://bible-api.com/'' @ entry @ lit ''?translation=''
                      @ or_str translation (lit ''kjv''))" i])
  qed
  have raises: "requests_get url = Inl e
            \<longrightarrow> get_random_verse repr requests_get draw translation = Inl e"
    by (rule impI) (rule get_random_verse_request(1)[OF u])
  have only: "requests_get url = other url
            \<longrightarrow> get_random_verse repr requests_get draw translation
                  = get_random_verse repr other draw translation"
    by (rule impI) (rule get_random_verse_request(2)[OF u])
  have ok: "requests_get url = Inr response \<and> status_code response = 200
            \<and> body response = Some (JObj kvs)
            \<and> map_of kvs (lit ''reference'') = Some r
            \<and> map_of kvs (lit ''translation_name'') = Some t
            \<and> map_of kvs (lit ''text'') = Some (JStr x)
            \<longrightarrow> get_random_verse repr requests_get draw translation
                  = Inr (lit ''Random Verse - '' @ fstr repr r @ lit '' ('' @ fstr repr t
                         @ lit ''):'' @ [10] @ strip x)"
    by (intro impI, elim conjE) (rule get_random_verse_ok[OF u]; assumption)
  show ?thesis
    by (intro conjI m l raises only ok every)
qed

theorem random_reference_from_list_witness:
  "lit ''Psalm 46:1'' \<in> set inspiring_verses
   \<and> get_random_verse repr0
       (upstream_only (lit ''https://bible-api.com/Psalm 46:1?translation=web'') john_3_16)
       10 (Some (lit ''web''))
       = Inr (lit ''Random Verse - John 3:16 (King James Version):\<newline>For God so loved the world.'')
   \<and> get_random_verse repr0 upstream_down 10 (Some (lit ''web'')) = Inl RequestException"
proof -
  let ?U = "lit ''https://bible-api.com/Psalm 46:1?translation=web''"
  let ?kvs = "[(lit ''reference'', JStr (lit ''John 3:16'')),
      (lit ''text'', JStr (lit ''For God so loved the world.\<newline>'')),
      (lit ''translation_id'', JStr (lit ''kjv'')),
      (lit ''translation_name'', JStr (lit ''King James Version''))]"
  let ?response = "\<lparr>status_code = 200, body = Some (JObj ?kvs)\<rparr>"
  have i: "lit ''Psalm 46:1'' = inspiring_verses ! (10 mod length inspiring_verses)"
    by (simp add: inspiring_verses_def)
  have u: "?U = lit ''https://bible-api.com/'' @ lit ''Psalm 46:1'' @ lit ''?translation=''
               @ or_str (Some (lit ''web'')) (lit ''kjv'')"
    by (simp add: or_str_def lit_def)
  have given: "upstream_only ?U john_3_16 ?U = Inr ?response
      \<and> status_code ?response = 200
      \<and> body ?response = Some (JObj ?kvs)
      \<and> map_of ?kvs (lit ''reference'') = Some (JStr (lit ''John 3:16''))
      \<and> map_of ?kvs (lit ''translation_name'') = Some (JStr (lit ''King James Version''))
      \<and> map_of ?kvs (lit ''text'') = Some (JStr (lit ''For God so loved the world.\<newline>''))"
    by (simp add: upstream_only_def john_3_16_def lit_def)
  have o: "lit ''Random Verse - '' @ fstr repr0 (JStr (lit ''John 3:16'')) @ lit '' (''
             @ fstr repr0 (JStr (lit ''King James Version'')) @ lit ''):'' @ [10]
             @ strip (lit ''For God so loved the world.\<newline>'')
           = lit ''Random Verse - John 3:16 (King James Version):\<newline>For God so loved the world.''"
    by (simp add: strip_def lstrip_def rstrip_def is_space_def lit_def)
  have dn: "upstream_down ?U = Inl RequestException"
    by (simp add: upstream_down_def)
  note up = random_reference_from_list [OF i u,
      where requests_get = "upstream_only ?U john_3_16"
        and response = ?response and kvs = ?kvs
        and r = "JStr (lit ''John 3:16'')" and t = "JStr (lit ''King James Version'')"
        and x = "lit ''For God so loved the world.\<newline>''" and repr = repr0]
  note down = random_reference_from_list [OF i u, where requests_get = upstream_down
        and e = RequestException and repr = repr0]
  have "lit ''Psalm 46:1'' \<in> set inspiring_verses"
    by (rule up [THEN conjunct1])
  moreover have "get_random_verse repr0 (upstream_only ?U john_3_16) 10 (Some (lit ''web''))
       = Inr (lit ''Random Verse - John 3:16 (King James Version):\<newline>For God so loved the world.'')"
    using up [THEN conjunct2, THEN conjunct2, THEN conjunct2, THEN conjunct2, THEN conjunct1,
        THEN mp, OF given]
    by (simp only: o)
  moreover have "get_random_verse repr0 upstream_down 10 (Some (lit ''web'')) = Inl RequestException"
    by (rule down [THEN conjunct2, THEN conjunct2, THEN conjunct1, THEN mp, OF dn])
  ultimately show ?thesis
    by (intro conjI)
qed

subsection \<open>The list of books\<close>

lemma split_lines_not_Nil: "split_lines s \<noteq> []"
  by (induction s) (auto split: list.splits)

lemma split_lines_no_newline: "10 \<notin> set s \<Longrightarrow> split_lines s = [s]"
  by (induction s) auto

lemma split_lines_append:
  "10 \<notin> set a \<Longrightarrow> split_lines (a @ 10 # b) = a # split_lines b"
  by (induction a) auto

lemma split_lines_join_Cons:
  "10 \<notin> set l \<Longrightarrow> \<forall>k \<in> set ls. 10 \<notin> set k \<Longrightarrow> split_lines (join [10] (l # ls)) = l # ls"
proof (induction ls arbitrary: l)
  case Nil
  then show ?case by (simp add: split_lines_no_newline)
next
  case (Cons k ks)
  then show ?case by (simp add: split_lines_append)
qed

lemma str_nat_digits: "c \<in> set (str_nat n) \<Longrightarrow> 48 \<le> c \<and> c \<le> 57"
proof (induction n arbitrary: c rule: str_nat.induct)
  case (1 n)
  show ?case
  proof (cases "n < 10")
    case True
    with "1.prems" show ?thesis by (simp add: str_nat.simps)
  next
    case False
    have "c \<in> set (str_nat (n div 10)) \<or> c = 48 + n mod 10"
      using "1.prems" False by (subst (asm) str_nat.simps) auto
    then show ?thesis
    proof
      assume "c \<in> set (str_nat (n div 10))"
      with "1.IH" False show ?thesis by blast
    next
      assume "c = 48 + n mod 10"
      then show ?thesis by simp
    qed
  qed
qed

lemma str_int_no_newline: "10 \<notin> set (str_int i)"
  using str_nat_digits[of 10] by (auto simp: str_int_def)

lemma fmt_2d_no_newline: "10 \<notin> set (fmt_2d i)"
  using str_int_no_newline[of i] by (simp add: fmt_2d_def Let_def)

lemma books_length: "length books = 66"
  by (simp add: books_def)

lemma books_no_newline: "\<forall>book \<in> set books. 10 \<notin> set book"
  by (simp add: books_def lit_def)

lemma books_abbreviations: "list_all has_abbreviation books"
  by (simp add: books_def has_abbreviation_def lit_def)


lemma enumerate_py_map:
  "map f (enumerate_py xs) = map (\<lambda>i. f (i - 1, xs ! (i - 1))) [1 ..< Suc (length xs)]"
proof -
  have "map f (enumerate_py xs) = map (\<lambda>i. f (i, xs ! i)) [0 ..< length xs]"
    unfolding enumerate_py_def by (rule nth_equalityI) simp_all
  also have "\<dots> = map (\<lambda>i. f (i - 1, xs ! (i - 1))) (map Suc [0 ..< length xs])"
    by simp
  also have "map Suc [0 ..< length xs] = [1 ..< Suc (length xs)]"
    by (simp only: map_Suc_upt One_nat_def)
  finally show ?thesis .
qed

lemma bible_books_lines:
  "split_lines bible_books
     = lit ''Bible Books (66 total):'' # [] #
       map (\<lambda>i. fmt_2d (int i) @ lit ''. '' @ books ! (i - 1)) [1 ..< 67]"
proof -
  let ?entries = "map (\<lambda>(i, book). fmt_2d (int i + 1) @ lit ''. '' @ book) (enumerate_py books)"
  have e: "?entries = map (\<lambda>i. fmt_2d (int i) @ lit ''. '' @ books ! (i - 1)) [1 ..< 67]"
    by (simp add: enumerate_py_map books_length of_nat_diff cong: map_cong)
  have n: "\<forall>l \<in> set ?entries. 10 \<notin> set l"
    using books_no_newline fmt_2d_no_newline
    by (auto simp: enumerate_py_def lit_def dest: set_zip_rightD)
  have ne: "?entries \<noteq> []"
    using books_length by (auto simp: enumerate_py_def)
  then obtain l ls where ls: "?entries = l # ls"
    by (cases ?entries) auto
  have j: "split_lines (join [10] ?entries) = ?entries"
    using n unfolding ls by (intro split_lines_join_Cons) auto
  have h: "lit ''Bible Books ('' @ str_int (int (length books)) @ lit '' total):\<newline>\<newline>'' @ rest
             = lit ''Bible Books (66 total):'' @ 10 # ([] @ 10 # rest)" for rest
    by (simp add: books_length str_int_def str_nat.simps lit_def)
  have hn: "10 \<notin> set (lit ''Bible Books (66 total):'')"
    by (simp add: lit_def)
  have nl: "lit ''\<newline>'' = [10]"
    by (simp add: lit_def)
  have "split_lines bible_books
          = split_lines (lit ''Bible Books (66 total):'' @ 10 # ([] @ 10 # join [10] ?entries))"
    unfolding bible_books_def nl by (simp only: h)
  also have "\<dots> = lit ''Bible Books (66 total):'' # split_lines ([] @ 10 # join [10] ?entries)"
    by (rule split_lines_append[OF hn])
  also have "\<dots> = lit ''Bible Books (66 total):'' # [] # split_lines (join [10] ?entries)"
    by (simp only: split_lines_append[of "[]"] list.set empty_iff not_False_eq_True)
  also have "\<dots> = lit ''Bible Books (66 total):'' # [] # ?entries"
    by (simp only: j)
  finally show ?thesis
    unfolding e .
qed

lemma has_abbreviationD:
  assumes "has_abbreviation book"
  shows "\<exists>name abbr. name \<noteq> [] \<and> length abbr = 3 \<and> book = name @ lit '' ('' @ abbr @ lit '')''"
proof -
  let ?name = "take (length book - 6) book"
  let ?abbr = "take 3 (drop (length book - 4) book)"
  have d: "drop (length book - 6) book = lit '' ('' @ ?abbr @ lit '')''"
    using assms by (simp add: has_abbreviation_def)
  have "?name @ drop (length book - 6) book = book"
    by (rule append_take_drop_id)
  then have "book = ?name @ lit '' ('' @ ?abbr @ lit '')''"
    unfolding d by (rule sym)
  moreover have "?name \<noteq> []" "length ?abbr = 3"
    using assms by (auto simp: has_abbreviation_def)
  ultimately show ?thesis by blast
qed

text \<open>
  C9. \<open>bible_books\<close> takes no argument and no upstream: it is one constant string. Its
  lines are the header \<open>Bible Books (66 total):\<close>, an empty line, and 66 entries; entry
  \<open>i\<close>, for \<open>i\<close> from 1 to 66, is the number \<open>i\<close> in a field of width 2, a full stop, a
  space and the \<open>i\<close>-th book, which is a name followed by its three-letter abbreviation
  in parentheses. The first entry is \<open> 1. Genesis (Gen)\<close>, the last
  \<open>66. Revelation (Rev)\<close>.
\<close>

theorem bible_books_entries:
  "split_lines bible_books
     = lit ''Bible Books (66 total):'' # [] #
       map (\<lambda>i. fmt_2d (int i) @ lit ''. '' @ books ! (i - 1)) [1 ..< 67]
   \<and> length books = 66
   \<and> list_all has_abbreviation books
   \<and> split_lines bible_books ! 2 = lit '' 1. Genesis (Gen)''
   \<and> split_lines bible_books ! 67 = lit ''66. Revelation (Rev)''"
proof -
  have first: "fmt_2d 1 @ lit ''. '' @ books ! 0 = lit '' 1. Genesis (Gen)''"
    by (simp add: fmt_2d_def str_int_def str_nat.simps books_def lit_def)
  have last: "fmt_2d 66 @ lit ''. '' @ books ! 65 = lit ''66. Revelation (Rev)''"
    by (simp add: fmt_2d_def str_int_def str_nat.simps books_def lit_def)
  have "[1 ..< 67] ! 0 = (1::nat)" "[1 ..< 67] ! 65 = (66::nat)"
    by (simp_all only: nth_upt)
  then have "map (\<lambda>i. fmt_2d (int i) @ lit ''. '' @ books ! (i - 1)) [1 ..< 67] ! 0
               = lit '' 1. Genesis (Gen)''"
    and "map (\<lambda>i. fmt_2d (int i) @ lit ''. '' @ books ! (i - 1)) [1 ..< 67] ! 65
               = lit ''66. Revelation (Rev)''"
    using first last by (simp_all del: upt_Suc)
  then show ?thesis
    using books_length books_abbreviations
    by (simp add: bible_books_lines numeral_nat(1) del: upt_Suc)
qed

subsection \<open>Prompts and resources\<close>

lemma sublist_mid: "sublist a (p @ a @ s)"
  by (rule sublist_appendI)

lemma bible_study_template:
  "bible_study topic_or_passage study_level
     = lit ''Create a comprehensive Bible study guide for: '' @ topic_or_passage
       @ lit ''\<newline>\<newline>Study Level: '' @ study_level
       @ lit ''\<newline>\<newline>Please include:\<newline>1. **Key Verses**: 3-5 relevant Bible verses with references\<newline>2. **Context**: Historical and cultural background\<newline>3. **Main Themes**: Core theological concepts\<newline>4. **Application**: How this applies to modern life\<newline>5. **Discussion Questions**: 3-4 thought-provoking questions\<newline>6. **Prayer Points**: Suggested areas for prayer\<newline>7. **Further Study**: Related passages or topics to explore\<newline>\<newline>Make this study guide practical and accessible for personal or group study.''"
  by (simp add: bible_study_def lit_def)

lemma daily_reflection_template:
  "daily_reflection verse_or_theme focus_area
     = lit ''Daily Devotional Reflection\<newline>\<newline>**Scripture Focus**: '' @ verse_or_theme
       @ lit ''\<newline>**Life Focus**: '' @ focus_area
       @ lit (''\<newline>\<newline>Create a meaningful daily devotional that includes:\<newline>\<newline>1. **Opening Prayer**: A brief prayer to center the heart\<newline>2. **Scripture Reading**: The full text of the verse(s)\<newline>3. **Reflection**: 2-3 paragraphs exploring the meaning and relevance\<newline>4. **Personal Application**: Specific ways to apply this truth today\<newline>5. **Closing Prayer**: A prayer incorporating the day''
              @ [CHR 0x27] @ ''s lesson\<newline>6. **Action Step**: One concrete step to take today\<newline>\<newline>Write this in a warm, encouraging tone that speaks to both heart and mind. Make it practical for someone''
              @ [CHR 0x27] @ ''s daily walk with God.'')"
  by (simp add: daily_reflection_def lit_def)

lemma bible_study_lines:
  assumes "10 \<notin> set topic_or_passage" and "10 \<notin> set study_level"
  shows "split_lines (bible_study topic_or_passage study_level)
     = [lit ''Create a comprehensive Bible study guide for: '' @ topic_or_passage,
        [],
        lit ''Study Level: '' @ study_level,
        [],
        lit ''Please include:'',
        lit ''1. **Key Verses**: 3-5 relevant Bible verses with references'',
        lit ''2. **Context**: Historical and cultural background'',
        lit ''3. **Main Themes**: Core theological concepts'',
        lit ''4. **Application**: How this applies to modern life'',
        lit ''5. **Discussion Questions**: 3-4 thought-provoking questions'',
        lit ''6. **Prayer Points**: Suggested areas for prayer'',
        lit ''7. **Further Study**: Related passages or topics to explore'',
        [],
        lit ''Make this study guide practical and accessible for personal or group study.'']"
proof -
  have a: "10 \<notin> set (lit ''Create a comprehensive Bible study guide for: '' @ topic_or_passage)"
    and b: "10 \<notin> set (lit ''Study Level: '' @ study_level)"
    using assms by (simp_all add: lit_def)
  have "bible_study topic_or_passage study_level
          = (lit ''Create a comprehensive Bible study guide for: '' @ topic_or_passage)
            @ 10 # ([] @ 10 # ((lit ''Study Level: '' @ study_level)
            @ 10 # lit ''\<newline>Please include:\<newline>1. **Key Verses**: 3-5 relevant Bible verses with references\<newline>2. **Context**: Historical and cultural background\<newline>3. **Main Themes**: Core theological concepts\<newline>4. **Application**: How this applies to modern life\<newline>5. **Discussion Questions**: 3-4 thought-provoking questions\<newline>6. **Prayer Points**: Suggested areas for prayer\<newline>7. **Further Study**: Related passages or topics to explore\<newline>\<newline>Make this study guide practical and accessible for personal or group study.''))"
    by (simp add: bible_study_def lit_def)
  then have "split_lines (bible_study topic_or_passage study_level)
          = (lit ''Create a comprehensive Bible study guide for: '' @ topic_or_passage) # []
            # (lit ''Study Level: '' @ study_level)
            # split_lines (lit ''\<newline>Please include:\<newline>1. **Key Verses**: 3-5 relevant Bible verses with references\<newline>2. **Context**: Historical and cultural background\<newline>3. **Main Themes**: Core theological concepts\<newline>4. **Application**: How this applies to modern life\<newline>5. **Discussion Questions**: 3-4 thought-provoking questions\<newline>6. **Prayer Points**: Suggested areas for prayer\<newline>7. **Further Study**: Related passages or topics to explore\<newline>\<newline>Make this study guide practical and accessible for personal or group study.'')"
    by (simp only: split_lines_append[OF a] split_lines_append[OF b]
        split_lines_append[of "[]"] list.set empty_iff not_False_eq_True)
  then show ?thesis
    by (simp add: lit_def)
qed

lemma daily_reflection_lines:
  assumes "10 \<notin> set verse_or_theme" and "10 \<notin> set focus_area"
  shows "split_lines (daily_reflection verse_or_theme focus_area)
     = [lit ''Daily Devotional Reflection'',
        [],
        lit ''**Scripture Focus**: '' @ verse_or_theme,
        lit ''**Life Focus**: '' @ focus_area,
        [],
        lit ''Create a meaningful daily devotional that includes:'',
        [],
        lit ''1. **Opening Prayer**: A brief prayer to center the heart'',
        lit ''2. **Scripture Reading**: The full text of the verse(s)'',
        lit ''3. **Reflection**: 2-3 paragraphs exploring the meaning and relevance'',
        lit ''4. **Personal Application**: Specific ways to apply this truth today'',
        lit (''5. **Closing Prayer**: A prayer incorporating the day'' @ [CHR 0x27] @ ''s lesson''),
        lit ''6. **Action Step**: One concrete step to take today'',
        [],
        lit (''Write this in a warm, encouraging tone that speaks to both heart and mind. Make it practical for someone'' @ [CHR 0x27] @ ''s daily walk with God.'')]"
proof -
  have a: "10 \<notin> set (lit ''**Scripture Focus**: '' @ verse_or_theme)"
    and b: "10 \<notin> set (lit ''**Life Focus**: '' @ focus_area)"
    and c: "10 \<notin> set (lit ''Daily Devotional Reflection'')"
    using assms by (simp_all add: lit_def)
  have "daily_reflection verse_or_theme focus_area
          = lit ''Daily Devotional Reflection'' @ 10 # ([] @ 10 #
            ((lit ''**Scripture Focus**: '' @ verse_or_theme)
            @ 10 # ((lit ''**Life Focus**: '' @ focus_area)
            @ 10 # lit (''\<newline>Create a meaningful daily devotional that includes:\<newline>\<newline>1. **Opening Prayer**: A brief prayer to center the heart\<newline>2. **Scripture Reading**: The full text of the verse(s)\<newline>3. **Reflection**: 2-3 paragraphs exploring the meaning and relevance\<newline>4. **Personal Application**: Specific ways to apply this truth today\<newline>5. **Closing Prayer**: A prayer incorporating the day''
              @ [CHR 0x27] @ ''s lesson\<newline>6. **Action Step**: One concrete step to take today\<newline>\<newline>Write this in a warm, encouraging tone that speaks to both heart and mind. Make it practical for someone''
              @ [CHR 0x27] @ ''s daily walk with God.''))))"
    by (simp add: daily_reflection_def lit_def)
  then have "split_lines (daily_reflection verse_or_theme focus_area)
          = lit ''Daily Devotional Reflection'' # []
            # (lit ''**Scripture Focus**: '' @ verse_or_theme)
            # (lit ''**Life Focus**: '' @ focus_area)
            # split_lines (lit (''\<newline>Create a meaningful daily devotional that includes:\<newline>\<newline>1. **Opening Prayer**: A brief prayer to center the heart\<newline>2. **Scripture Reading**: The full text of the verse(s)\<newline>3. **Reflection**: 2-3 paragraphs exploring the meaning and relevance\<newline>4. **Personal Application**: Specific ways to apply this truth today\<newline>5. **Closing Prayer**: A prayer incorporating the day''
              @ [CHR 0x27] @ ''s lesson\<newline>6. **Action Step**: One concrete step to take today\<newline>\<newline>Write this in a warm, encouraging tone that speaks to both heart and mind. Make it practical for someone''
              @ [CHR 0x27] @ ''s daily walk with God.''))"
    by (simp only: split_lines_append[OF a] split_lines_append[OF b] split_lines_append[OF c]
        split_lines_append[of "[]"] list.set empty_iff not_False_eq_True)
  then show ?thesis
    by (simp add: lit_def)
qed

lemma prompt_or_resource_pure:
  assumes "prompt_or_resource call"
  shows "invoke repr requests_get draw call = invoke repr' requests_get' draw' call"
    and "\<exists>s. invoke repr requests_get draw call = Inr s"
  using assms by (cases call; simp)+

text \<open>
  C10. A call of a prompt or a resource returns the same string in every world: its
  result depends neither on the upstream nor on the generator, and it never raises.
  \<open>bible_study\<close> and \<open>daily_reflection\<close> are the fixed texts below around their two
  arguments, so the result contains both arguments verbatim; when the arguments have
  no newline in them, the lines of the result are the lines of the template with the
  arguments in their places.
\<close>

theorem prompts_interpolate:
  "(prompt_or_resource call \<longrightarrow>
      invoke repr requests_get draw call = invoke repr' requests_get' draw' call
      \<and> (\<exists>s. invoke repr requests_get draw call = Inr s))
   \<and> bible_study topic_or_passage study_level
       = lit ''Create a comprehensive Bible study guide for: '' @ topic_or_passage
         @ lit ''\<newline>\<newline>Study Level: '' @ study_level
         @ lit ''\<newline>\<newline>Please include:\<newline>1. **Key Verses**: 3-5 relevant Bible verses with references\<newline>2. **Context**: Historical and cultural background\<newline>3. **Main Themes**: Core theological concepts\<newline>4. **Application**: How this applies to modern life\<newline>5. **Discussion Questions**: 3-4 thought-provoking questions\<newline>6. **Prayer Points**: Suggested areas for prayer\<newline>7. **Further Study**: Related passages or topics to explore\<newline>\<newline>Make this study guide practical and accessible for personal or group study.''
   \<and> daily_reflection verse_or_theme focus_area
       = lit ''Daily Devotional Reflection\<newline>\<newline>**Scripture Focus**: '' @ verse_or_theme
         @ lit ''\<newline>**Life Focus**: '' @ focus_area
         @ lit (''\<newline>\<newline>Create a meaningful daily devotional that includes:\<newline>\<newline>1. **Opening Prayer**: A brief prayer to center the heart\<newline>2. **Scripture Reading**: The full text of the verse(s)\<newline>3. **Reflection**: 2-3 paragraphs exploring the meaning and relevance\<newline>4. **Personal Application**: Specific ways to apply this truth today\<newline>5. **Closing Prayer**: A prayer incorporating the day''
              @ [CHR 0x27] @ ''s lesson\<newline>6. **Action Step**: One concrete step to take today\<newline>\<newline>Write this in a warm, encouraging tone that speaks to both heart and mind. Make it practical for someone''
              @ [CHR 0x27] @ ''s daily walk with God.'')
   \<and> sublist topic_or_passage (bible_study topic_or_passage study_level)
   \<and> sublist study_level (bible_study topic_or_passage study_level)
   \<and> sublist verse_or_theme (daily_reflection verse_or_theme focus_area)
   \<and> sublist focus_area (daily_reflection verse_or_theme focus_area)
   \<and> (10 \<notin> set topic_or_passage \<and> 10 \<notin> set study_level \<longrightarrow>
        split_lines (bible_study topic_or_passage study_level)
          = [lit ''Create a comprehensive Bible study guide for: '' @ topic_or_passage,
             [],
             lit ''Study Level: '' @ study_level,
             [],
             lit ''Please include:'',
             lit ''1. **Key Verses**: 3-5 relevant Bible verses with references'',
             lit ''2. **Context**: Historical and cultural background'',
             lit ''3. **Main Themes**: Core theological concepts'',
             lit ''4. **Application**: How this applies to modern life'',
             lit ''5. **Discussion Questions**: 3-4 thought-provoking questions'',
             lit ''6. **Prayer Points**: Suggested areas for prayer'',
             lit ''7. **Further Study**: Related passages or topics to explore'',
             [],
             lit ''Make this study guide practical and accessible for personal or group study.''])
   \<and> (10 \<notin> set verse_or_theme \<and> 10 \<notin> set focus_area \<longrightarrow>
        split_lines (daily_reflection verse_or_theme focus_area)
          = [lit ''Daily Devotional Reflection'',
             [],
             lit ''**Scripture Focus**: '' @ verse_or_theme,
             lit ''**Life Focus**: '' @ focus_area,
             [],
             lit ''Create a meaningful daily devotional that includes:'',
             [],
             lit ''1. **Opening Prayer**: A brief prayer to center the heart'',
             lit ''2. **Scripture Reading**: The full text of the verse(s)'',
             lit ''3. **Reflection**: 2-3 paragraphs exploring the meaning and relevance'',
             lit ''4. **Personal Application**: Specific ways to apply this truth today'',
             lit (''5. **Closing Prayer**: A prayer incorporating the day'' @ [CHR 0x27] @ ''s lesson''),
             lit ''6. **Action Step**: One concrete step to take today'',
             [],
             lit (''Write this in a warm, encouraging tone that speaks to both heart and mind. Make it practical for someone'' @ [CHR 0x27] @ ''s daily walk with God.'')])"
proof -
  have pure: "prompt_or_resource call \<longrightarrow>
      invoke repr requests_get draw call = invoke repr' requests_get' draw' call
      \<and> (\<exists>s. invoke repr requests_get draw call = Inr s)"
    by (intro impI conjI) (erule prompt_or_resource_pure)+
  have s1: "sublist topic_or_passage (bible_study topic_or_passage study_level)"
    unfolding bible_study_def by (rule sublist_mid)
  have s2: "sublist study_level (bible_study topic_or_passage study_level)"
    using sublist_mid[of study_level
        "lit ''Create a comprehensive Bible study guide for: '' @ topic_or_passage
          @ lit ''\<newline>\<newline>Study Level: ''"]
    by (simp only: bible_study_def append_assoc)
  have s3: "sublist verse_or_theme (daily_reflection verse_or_theme focus_area)"
    unfolding daily_reflection_def by (rule sublist_mid)
  have s4: "sublist focus_area (daily_reflection verse_or_theme focus_area)"
    using sublist_mid[of focus_area
        "lit ''Daily Devotional Reflection\<newline>\<newline>**Scripture Focus**: '' @ verse_or_theme
          @ lit ''\<newline>**Life Focus**: ''"]
    by (simp only: daily_reflection_def append_assoc)
  have l1: "10 \<notin> set topic_or_passage \<and> 10 \<notin> set study_level \<longrightarrow>
        split_lines (bible_study topic_or_passage study_level)
          = [lit ''Create a comprehensive Bible study guide for: '' @ topic_or_passage,
             [],
             lit ''Study Level: '' @ study_level,
             [],
             lit ''Please include:'',
             lit ''1. **Key Verses**: 3-5 relevant Bible verses with references'',
             lit ''2. **Context**: Historical and cultural background'',
             lit ''3. **Main Themes**: Core theological concepts'',
             lit ''4. **Application**: How this applies to modern life'',
             lit ''5. **Discussion Questions**: 3-4 thought-provoking questions'',
             lit ''6. **Prayer Points**: Suggested areas for prayer'',
             lit ''7. **Further Study**: Related passages or topics to explore'',
             [],
             lit ''Make this study guide practical and accessible for personal or group study.'']"
    by (intro impI, elim conjE) (rule bible_study_lines)
  have l2: "10 \<notin> set verse_or_theme \<and> 10 \<notin> set focus_area \<longrightarrow>
        split_lines (daily_reflection verse_or_theme focus_area)
          = [lit ''Daily Devotional Reflection'',
             [],
             lit ''**Scripture Focus**: '' @ verse_or_theme,
             lit ''**Life Focus**: '' @ focus_area,
             [],
             lit ''Create a meaningful daily devotional that includes:'',
             [],
             lit ''1. **Opening Prayer**: A brief prayer to center the heart'',
             lit ''2. **Scripture Reading**: The full text of the verse(s)'',
             lit ''3. **Reflection**: 2-3 paragraphs exploring the meaning and relevance'',
             lit ''4. **Personal Application**: Specific ways to apply this truth today'',
             lit (''5. **Closing Prayer**: A prayer incorporating the day'' @ [CHR 0x27] @ ''s lesson''),
             lit ''6. **Action Step**: One concrete step to take today'',
             [],
             lit (''Write this in a warm, encouraging tone that speaks to both heart and mind. Make it practical for someone'' @ [CHR 0x27] @ ''s daily walk with God.'')]"
    by (intro impI, elim conjE) (rule daily_reflection_lines)
  show ?thesis
    by (intro conjI pure bible_study_template daily_reflection_template s1 s2 s3 s4 l1 l2)
qed

theorem prompts_interpolate_witness:
  "prompt_or_resource (BibleStudy (lit ''love'') (lit ''basic''))
   \<and> invoke repr0 (upstream_ok john_3_16) 3 (BibleStudy (lit ''love'') (lit ''basic''))
       = invoke repr0 upstream_down 7 (BibleStudy (lit ''love'') (lit ''basic''))
   \<and> split_lines (bible_study (lit ''love'') (lit ''basic''))
       = [lit ''Create a comprehensive Bible study guide for: love'',
          [],
          lit ''Study Level: basic'',
          [],
          lit ''Please include:'',
          lit ''1. **Key Verses**: 3-5 relevant Bible verses with references'',
          lit ''2. **Context**: Historical and cultural background'',
          lit ''3. **Main Themes**: Core theological concepts'',
          lit ''4. **Application**: How this applies to modern life'',
          lit ''5. **Discussion Questions**: 3-4 thought-provoking questions'',
          lit ''6. **Prayer Points**: Suggested areas for prayer'',
          lit ''7. **Further Study**: Related passages or topics to explore'',
          [],
          lit ''Make this study guide practical and accessible for personal or group study.'']
   \<and> invoke repr0 (upstream_ok john_3_16) 3 (GetVerse (lit ''John 3:16'') None)
       \<noteq> invoke repr0 upstream_down 7 (GetVerse (lit ''John 3:16'') None)"
proof -
  note t = prompts_interpolate [where call = "BibleStudy (lit ''love'') (lit ''basic'')"
      and topic_or_passage = "lit ''love''" and study_level = "lit ''basic''"
      and verse_or_theme = "lit ''Psalm 23''" and focus_area = "lit ''gratitude''"
      and repr = repr0 and requests_get = "upstream_ok john_3_16" and draw = 3
      and repr' = repr0 and requests_get' = upstream_down and draw' = 7]
  have p: "prompt_or_resource (BibleStudy (lit ''love'') (lit ''basic''))"
    by simp
  have n: "10 \<notin> set (lit ''love'') \<and> 10 \<notin> set (lit ''basic'')"
    by (simp add: lit_def)
  have j: "lit ''Create a comprehensive Bible study guide for: '' @ lit ''love''
             = lit ''Create a comprehensive Bible study guide for: love''"
    "lit ''Study Level: '' @ lit ''basic'' = lit ''Study Level: basic''"
    by (simp_all add: lit_def)
  have "invoke repr0 (upstream_ok john_3_16) 3 (BibleStudy (lit ''love'') (lit ''basic''))
       = invoke repr0 upstream_down 7 (BibleStudy (lit ''love'') (lit ''basic''))"
    by (rule t [THEN conjunct1, THEN mp, OF p, THEN conjunct1])
  moreover note t [THEN conjunct2, THEN conjunct2, THEN conjunct2, THEN conjunct2,
      THEN conjunct2, THEN conjunct2, THEN conjunct2, THEN conjunct1, THEN mp, OF n,
      unfolded j]
  moreover have "invoke repr0 (upstream_ok john_3_16) 3 (GetVerse (lit ''John 3:16'') None)
       \<noteq> invoke repr0 upstream_down 7 (GetVerse (lit ''John 3:16'') None)"
    by (simp add: get_verse_def upstream_ok_def upstream_down_def response_json_def
        john_3_16_def lit_def)
  ultimately show ?thesis
    using p by (intro conjI)
qed

subsection \<open>The entries of a search\<close>

lemma search_entry_fields:
  "result_fields v = Some (r, x) \<Longrightarrow> search_entry repr v = Inr (fstr repr r @ lit '': '' @ strip x)"
  by (auto simp: result_fields_def search_entry_def split: json.splits option.splits)

lemma search_entry_text:
  "result_fields v \<noteq> None \<Longrightarrow> search_entry repr v = Inr (entry_text repr v)"
  by (auto simp: entry_text_def search_entry_fields)

lemma search_loop_results:
  "\<forall>v \<in> set vs. result_fields v \<noteq> None \<Longrightarrow>
     search_loop repr results vs = Inr (results @ map (entry_text repr) vs)"
  by (induction vs arbitrary: results) (simp_all add: search_entry_text)

lemma slice_to_positive: "0 < n \<Longrightarrow> slice_to n xs = take (nat n) xs"
  by (simp add: slice_to_def)

text \<open>
  With a positive limit in force (the argument, or 10 when the argument is falsy) the
  tool keeps to the bound. When the upstream answers a search with status 200 and a
  non-empty list whose first results, up to the limit, are objects with a \<open>reference\<close>
  and a string \<open>text\<close>, the entries of the output are those first results, at most
  as many as the limit, each formatted as \<open>{reference}: {text stripped}\<close>; they are
  joined by blank lines and follow the header \<open>Found {n} verse(s) for '{query}':\<close>, in
  which \<open>n\<close> is the number of entries.
\<close>

theorem search_at_most_limit:
  assumes "requests_get (search_verses_url query limit) = Inr response"
    and "status_code response = 200"
    and "body response = Some (JList vs)"
    and "vs \<noteq> []"
    and "0 < or_int limit 10"
    and "\<forall>v \<in> set (take (nat (or_int limit 10)) vs). result_fields v \<noteq> None"
    and "entries = map (entry_text repr) (take (nat (or_int limit 10)) vs)"
  shows "search_verses repr requests_get query limit
           = Inr (lit ''Found '' @ str_int (int (length entries)) @ lit '' verse(s) for ''
                  @ [39] @ query @ [39] @ lit '':\<newline>\<newline>''
                  @ join (lit ''\<newline>\<newline>'') entries)
       \<and> int (length entries) \<le> or_int limit 10
       \<and> length entries = min (nat (or_int limit 10)) (length vs)"
proof -
  have loop: "search_loop repr [] (slice_to (or_int limit 10) vs) = Inr entries"
    using assms(5-7) by (simp add: slice_to_positive search_loop_results)
  have out: "search_verses repr requests_get query limit
           = Inr (lit ''Found '' @ str_int (int (length entries)) @ lit '' verse(s) for ''
                  @ [39] @ query @ [39] @ lit '':\<newline>\<newline>''
                  @ join (lit ''\<newline>\<newline>'') entries)"
    using assms(1-4) loop by (simp add: search_verses_def response_json_def)
  have "length entries = min (nat (or_int limit 10)) (length vs)"
    using assms(7) by (simp add: min.commute)
  then show ?thesis
    using out assms(5) by simp
qed

lemma five_entries_text: "map (entry_text repr0) (case five_results of JList vs \<Rightarrow> vs) = five_entries"
  by (simp add: five_results_def five_entries_def entry_text_def result_fields_def
      strip_def lstrip_def rstrip_def is_space_def lit_def)

theorem search_at_most_limit_witness:
  "search_verses repr0 (upstream_ok five_results) (lit ''love'') (Some 2)
     = Inr (lit ''Found 2 verse(s) for '' @ [39] @ lit ''love'' @ [39] @ lit '':\<newline>\<newline>''
            @ join (lit ''\<newline>\<newline>'') (take 2 five_entries))
   \<and> length (take 2 five_entries) = 2"
proof -
  obtain vs where vs: "five_results = JList vs" "length vs = 5" "vs \<noteq> []"
    by (simp add: five_results_def)
  have e: "map (entry_text repr0) vs = five_entries"
    using five_entries_text[unfolded vs(1)] by simp
  have f: "\<forall>v \<in> set (take (nat (or_int (Some 2) 10)) vs). result_fields v \<noteq> None"
    using vs(1) by (auto simp: five_results_def result_fields_def or_int_def lit_def)
  have t: "map (entry_text repr0) (take (nat (or_int (Some 2) 10)) vs) = take 2 five_entries"
    using e by (simp add: or_int_def take_map[symmetric])
  have n: "str_int 2 = lit ''2''"
    by (simp add: str_int_def str_nat.simps lit_def)
  show ?thesis
    using search_at_most_limit [where requests_get = "upstream_ok five_results"
        and query = "lit ''love''" and limit = "Some 2"
        and response = "\<lparr>status_code = 200, body = Some five_results\<rparr>"
        and vs = vs and repr = repr0 and entries = "take 2 five_entries"] vs f t n
    by (simp add: upstream_ok_def or_int_def five_entries_def)
       (simp add: lit_def)
qed

text \<open>
  C5. The docstring of \<open>search_verses\<close> calls \<open>limit\<close> the maximum number of results
  to return, and the claim bounds the entries of the output by it. The code does not
  keep to that for a negative limit: \<open>data[:limit]\<close> then drops results from the end
  instead of keeping a prefix. With limit \<open>-1\<close> and five results the tool returns four
  entries under the header \<open>Found 4 verse(s)\<close>.
\<close>

theorem search_verses_negative_limit:
  "search_verses repr0 (upstream_ok five_results) (lit ''love'') (Some (- 1))
     = Inr (lit ''Found 4 verse(s) for '' @ [39] @ lit ''love'' @ [39] @ lit '':\<newline>\<newline>''
            @ join (lit ''\<newline>\<newline>'') (take 4 five_entries))
   \<and> length (take 4 five_entries) = 4"
proof -
  have s: "slice_to (- 1) (case five_results of JList vs \<Rightarrow> vs) = take 4 (case five_results of JList vs \<Rightarrow> vs)"
    by (simp add: slice_to_def five_results_def)
  have r: "\<forall>v \<in> set (take 4 (case five_results of JList vs \<Rightarrow> vs)). result_fields v \<noteq> None"
    by (simp add: five_results_def result_fields_def lit_def)
  have l: "search_loop repr0 [] (slice_to (- 1) (case five_results of JList vs \<Rightarrow> vs))
             = Inr (take 4 five_entries)"
  proof -
    have "map (entry_text repr0) (take 4 (case five_results of JList vs \<Rightarrow> vs))
            = take 4 (map (entry_text repr0) (case five_results of JList vs \<Rightarrow> vs))"
      by (simp only: take_map)
    then show ?thesis
      unfolding s using search_loop_results[OF r, of repr0 "[]"]
      by (simp only: five_entries_text append_Nil)
  qed
  have n: "str_int 4 = lit ''4''"
    by (simp add: str_int_def str_nat.simps lit_def)
  have len: "length (take 4 five_entries) = 4"
    by (simp add: five_entries_def)
  have "search_verses repr0 (upstream_ok five_results) (lit ''love'') (Some (- 1))
     = Inr (lit ''Found '' @ str_int 4 @ lit '' verse(s) for '' @ [39] @ lit ''love'' @ [39] @ lit '':\<newline>\<newline>''
            @ join (lit ''\<newline>\<newline>'') (take 4 five_entries))"
    using l len by (simp add: search_verses_def upstream_ok_def response_json_def or_int_def five_results_def)
  then show ?thesis
    using len by (simp add: n lit_def)
qed

subsection \<open>The lines of a chapter\<close>

lemma lstrip_append: "c \<in> set a \<Longrightarrow> \<not> is_space c \<Longrightarrow> lstrip (a @ b) = lstrip a @ b"
  by (simp add: lstrip_def)

lemma rstrip_append: "c \<in> set b \<Longrightarrow> \<not> is_space c \<Longrightarrow> rstrip (a @ b) = a @ rstrip b"
  by (simp add: rstrip_def)

lemma rstrip_spaces: "\<forall>c \<in> set w. is_space c \<Longrightarrow> rstrip (a @ w) = rstrip a"
  using dropWhile_append2[of "rev w" is_space "rev a"] by (simp add: rstrip_def)

lemma rstrip_snoc: "\<not> is_space c \<Longrightarrow> rstrip (a @ [c]) = a @ [c]"
  by (simp add: rstrip_def)

lemma lstrip_snoc: "\<not> is_space c \<Longrightarrow> \<exists>b. lstrip (a @ [c]) = b @ [c]"
  by (simp add: lstrip_def dropWhile_append)

lemma set_lstrip: "set (lstrip s) \<subseteq> set s"
  by (auto simp: lstrip_def dest: set_dropWhileD)

lemma set_rstrip: "set (rstrip s) \<subseteq> set s"
  by (auto simp: rstrip_def dest: set_dropWhileD)

lemma split_lines_concat:
  "\<forall>l \<in> set ls. 10 \<notin> set l \<Longrightarrow>
     split_lines (concat (map (\<lambda>l. l @ [10]) ls) @ z) = ls @ split_lines z"
  by (induction ls) (simp_all add: split_lines_append)

lemma space_10: "is_space 10" and not_space_40: "\<not> is_space 40"
  and not_space_46: "\<not> is_space 46" and not_space_58: "\<not> is_space 58"
  by (simp_all add: is_space_def)

lemma chapter_text_lines:
  assumes R: "10 \<notin> set R" and T: "10 \<notin> set T"
    and ls: "\<forall>l \<in> set ls. 10 \<notin> set l \<and> 46 \<in> set l"
    and H: "H = R @ lit '' ('' @ T @ lit ''):''"
  shows "split_lines (strip (H @ [10, 10] @ concat (map (\<lambda>l. l @ [10]) ls)))
           = (if ls = [] then [lstrip H] else lstrip H # [] # butlast ls @ [rstrip (last ls)])"
proof -
  have H40: "40 \<in> set H" and H10: "10 \<notin> set H"
    using R T by (simp_all add: H lit_def)
  have H58: "H = (R @ lit '' ('' @ T @ lit '')'') @ [58]"
    by (simp add: H lit_def)
  have L10: "10 \<notin> set (lstrip H)"
    using H10 set_lstrip by blast
  have left: "lstrip (H @ rest) = lstrip H @ rest" for rest
    using H40 not_space_40 by (rule lstrip_append)
  show ?thesis
  proof (cases "ls = []")
    case True
    obtain b where b: "lstrip H = b @ [58]"
      using lstrip_snoc[OF not_space_58] H58 by metis
    have "strip (H @ [10, 10]) = rstrip (lstrip H @ [10, 10])"
      by (simp only: strip_def left)
    also have "\<dots> = rstrip (lstrip H)"
      using space_10 by (intro rstrip_spaces) simp
    also have "\<dots> = lstrip H"
      unfolding b using not_space_58 by (rule rstrip_snoc)
    finally have "strip (H @ [10, 10]) = lstrip H" .
    then show ?thesis
      using True L10 by (simp add: split_lines_no_newline)
  next
    case False
    define ks where "ks = butlast ls"
    define l where "l = last ls"
    have split: "ls = ks @ [l]"
      using False by (simp add: ks_def l_def)
    have l: "10 \<notin> set l" "46 \<in> set l" and ks: "\<forall>k \<in> set ks. 10 \<notin> set k"
      using ls by (simp_all add: split)
    let ?C = "concat (map (\<lambda>l. l @ [10]) ks)"
    have body: "H @ [10, 10] @ concat (map (\<lambda>l. l @ [10]) ls) = H @ ([10, 10] @ ?C @ l @ [10])"
      by (simp add: split)
    have "strip (H @ [10, 10] @ concat (map (\<lambda>l. l @ [10]) ls))
            = rstrip (lstrip H @ ([10, 10] @ ?C @ l @ [10]))"
      by (simp only: body strip_def left)
    also have "\<dots> = rstrip ((lstrip H @ [10, 10] @ ?C @ l) @ [10])"
      by simp
    also have "\<dots> = rstrip ((lstrip H @ [10, 10] @ ?C) @ l)"
      using space_10 by (subst rstrip_spaces) simp_all
    also have "\<dots> = (lstrip H @ [10, 10] @ ?C) @ rstrip l"
      using l(2) not_space_46 by (rule rstrip_append)
    also have "\<dots> = lstrip H @ 10 # ([] @ 10 # (?C @ rstrip l))"
      by simp
    finally have s: "strip (H @ [10, 10] @ concat (map (\<lambda>l. l @ [10]) ls))
                       = lstrip H @ 10 # ([] @ 10 # (?C @ rstrip l))" .
    have r10: "10 \<notin> set (rstrip l)"
      using l(1) set_rstrip by blast
    have "split_lines (lstrip H @ 10 # ([] @ 10 # (?C @ rstrip l)))
            = lstrip H # split_lines ([] @ 10 # (?C @ rstrip l))"
      using L10 by (rule split_lines_append)
    also have "\<dots> = lstrip H # [] # split_lines (?C @ rstrip l)"
      by (simp only: split_lines_append[of "[]"] list.set empty_iff not_False_eq_True)
    also have "\<dots> = lstrip H # [] # ks @ [rstrip l]"
      using ks r10 by (simp add: split_lines_concat split_lines_no_newline)
    finally have "split_lines (lstrip H @ 10 # ([] @ 10 # (?C @ rstrip l)))
                    = lstrip H # [] # ks @ [rstrip l]" .
    then have "split_lines (strip (H @ [10, 10] @ concat (map (\<lambda>l. l @ [10]) ls)))
                 = lstrip H # [] # ks @ [rstrip l]"
      by (simp only: s)
    then show ?thesis
      using False by (simp only: ks_def l_def if_False)
  qed
qed


lemma verse_line_plain:
  assumes "plain_verse repr v"
  shows "verse_line repr v = Inr (verse_text repr v @ [10])"
    and "10 \<notin> set (verse_text repr v)" and "46 \<in> set (verse_text repr v)"
proof -
  obtain n x where f: "verse_fields v = Some (n, x)"
    and p: "10 \<notin> set (fstr repr n)" "10 \<notin> set (fstr repr x)"
    using assms by (auto simp: plain_verse_def split: option.splits)
  obtain kvs where v: "v = JObj kvs" "map_of kvs (lit ''verse'') = Some n"
    "map_of kvs (lit ''text'') = Some x"
    using f by (auto simp: verse_fields_def split: json.splits option.splits)
  have nl: "lit ''\<newline>'' = [10]"
    by (simp add: lit_def)
  show "verse_line repr v = Inr (verse_text repr v @ [10])"
    using v f by (simp add: verse_line_def verse_text_def nl)
  show "10 \<notin> set (verse_text repr v)" "46 \<in> set (verse_text repr v)"
    using p by (simp_all add: verse_text_def f lit_def)
qed

lemma chapter_loop_plain:
  "\<forall>v \<in> set vs. plain_verse repr v \<Longrightarrow>
     chapter_loop repr chapter_text vs
       = Inr (chapter_text @ concat (map (\<lambda>l. l @ [10]) (map (verse_text repr) vs)))"
  by (induction vs arbitrary: chapter_text) (simp_all add: verse_line_plain(1))

lemma get_chapter_plain:
  assumes "requests_get (get_chapter_url book_chapter translation) = Inr response"
    and "status_code response = 200"
    and "body response = Some (JObj kvs)"
    and "map_of kvs (lit ''error'') = None"
    and "map_of kvs (lit ''reference'') = Some r"
    and "map_of kvs (lit ''translation_name'') = Some t"
    and "map_of kvs (lit ''verses'') = Some (JList vs)"
    and "\<forall>v \<in> set vs. plain_verse repr v"
  shows "get_chapter repr requests_get book_chapter translation
           = Inr (strip ((fstr repr r @ lit '' ('' @ fstr repr t @ lit ''):'') @ [10, 10]
                         @ concat (map (\<lambda>l. l @ [10]) (map (verse_text repr) vs))))"
proof -
  have h: "lit ''):\<newline>\<newline>'' = lit ''):'' @ [10, 10]"
    by (simp add: lit_def)
  show ?thesis
    using assms(1-7)
    by (simp add: get_chapter_def response_json_def chapter_loop_plain[OF assms(8)] h)
qed

text \<open>
  C3, as the code has it. Let the upstream answer \<open>get_chapter\<close> with status 200 and
  a JSON object without an \<open>error\<close> key, whose \<open>reference\<close> and \<open>translation_name\<close>
  are rendered without a newline and whose \<open>verses\<close> is a list of plain verses. Then
  the tool returns a string whose first line is the header
  \<open>{reference} ({translation_name}):\<close>, with leading whitespace trimmed. When the list is
  empty that is all of it. Otherwise an empty line follows, and then one line
  \<open>{verse_number}. {verse_text}\<close> for each entry, in order, the last one with trailing
  whitespace trimmed: after the header there is one line more than there are entries.
\<close>

theorem get_chapter_lines:
  assumes "requests_get (get_chapter_url book_chapter translation) = Inr response"
    and "status_code response = 200"
    and "body response = Some (JObj kvs)"
    and "map_of kvs (lit ''error'') = None"
    and "map_of kvs (lit ''reference'') = Some r"
    and "map_of kvs (lit ''translation_name'') = Some t"
    and "map_of kvs (lit ''verses'') = Some (JList vs)"
    and "10 \<notin> set (fstr repr r)"
    and "10 \<notin> set (fstr repr t)"
    and "\<forall>v \<in> set vs. plain_verse repr v"
    and "header = fstr repr r @ lit '' ('' @ fstr repr t @ lit ''):''"
  shows "\<exists>out. get_chapter repr requests_get book_chapter translation = Inr out
           \<and> split_lines out
               = (if vs = [] then [lstrip header]
                  else lstrip header # [] # map (verse_text repr) (butlast vs)
                       @ [rstrip (verse_text repr (last vs))])
           \<and> length (tl (split_lines out)) = (if vs = [] then 0 else Suc (length vs))"
proof -
  let ?ls = "map (verse_text repr) vs"
  let ?out = "strip (header @ [10, 10] @ concat (map (\<lambda>l. l @ [10]) ?ls))"
  have out: "get_chapter repr requests_get book_chapter translation = Inr ?out"
    unfolding assms(11) using assms(1-7,10) by (rule get_chapter_plain)
  have ls: "\<forall>l \<in> set ?ls. 10 \<notin> set l \<and> 46 \<in> set l"
    using assms(10) by (simp add: verse_line_plain(2,3))
  have "split_lines ?out
          = (if ?ls = [] then [lstrip header]
             else lstrip header # [] # butlast ?ls @ [rstrip (last ?ls)])"
    using assms(8,9) ls assms(11) by (rule chapter_text_lines)
  then have lines: "split_lines ?out
          = (if vs = [] then [lstrip header]
             else lstrip header # [] # map (verse_text repr) (butlast vs)
                  @ [rstrip (verse_text repr (last vs))])"
    by (simp add: map_butlast last_map)
  have "length (tl (split_lines ?out)) = (if vs = [] then 0 else Suc (length vs))"
    unfolding lines by simp
  with out lines show ?thesis
    by blast
qed

lemma get_chapter_psalm_117:
  "get_chapter repr0 (upstream_ok psalm_117) (lit ''Psalm 117'') None = Inr psalm_117_text"
  by (simp add: get_chapter_def get_chapter_url_def upstream_ok_def response_json_def
      psalm_117_def verse_line_def psalm_117_text_def str_int_def str_nat.simps
      strip_def lstrip_def rstrip_def is_space_def or_str_def lit_def)

theorem get_chapter_lines_witness:
  "get_chapter repr0 (upstream_ok psalm_117) (lit ''Psalm 117'') None = Inr psalm_117_text
   \<and> split_lines psalm_117_text
       = [lit ''Psalm 117 (King James Version):'', [],
          lit ''1. O praise the LORD, all ye nations.'', lit ''2. Praise ye the LORD.'']"
proof -
  define v1 where "v1 = JObj [(lit ''book_name'', JStr (lit ''Psalms'')), (lit ''chapter'', JInt 117),
                (lit ''verse'', JInt 1), (lit ''text'', JStr (lit ''O praise the LORD, all ye nations.''))]"
  define v2 where "v2 = JObj [(lit ''book_name'', JStr (lit ''Psalms'')), (lit ''chapter'', JInt 117),
                (lit ''verse'', JInt 2), (lit ''text'', JStr (lit ''Praise ye the LORD.''))]"
  define kvs where "kvs = [(lit ''reference'', JStr (lit ''Psalm 117'')),
      (lit ''verses'', JList [v1, v2]),
      (lit ''translation_name'', JStr (lit ''King James Version''))]"
  have p: "psalm_117 = JObj kvs"
    by (simp add: psalm_117_def kvs_def v1_def v2_def)
  have f1: "verse_fields v1 = Some (JInt 1, JStr (lit ''O praise the LORD, all ye nations.''))"
    and f2: "verse_fields v2 = Some (JInt 2, JStr (lit ''Praise ye the LORD.''))"
    by (simp_all add: verse_fields_def v1_def v2_def lit_def)
  have t1: "verse_text repr0 v1 = lit ''1. O praise the LORD, all ye nations.''"
    and t2: "verse_text repr0 v2 = lit ''2. Praise ye the LORD.''"
    by (simp_all add: verse_text_def f1 f2 str_int_def str_nat.simps lit_def)
  have plain: "\<forall>v \<in> set [v1, v2]. plain_verse repr0 v"
    by (simp add: plain_verse_def f1 f2 str_int_def str_nat.simps lit_def)
  have s: "lstrip (lit ''Psalm 117 (King James Version):'') = lit ''Psalm 117 (King James Version):''"
    "rstrip (lit ''2. Praise ye the LORD.'') = lit ''2. Praise ye the LORD.''"
    by (simp_all add: lstrip_def rstrip_def is_space_def lit_def)
  have fields: "map_of kvs (lit ''error'') = None"
    "map_of kvs (lit ''reference'') = Some (JStr (lit ''Psalm 117''))"
    "map_of kvs (lit ''translation_name'') = Some (JStr (lit ''King James Version''))"
    "map_of kvs (lit ''verses'') = Some (JList [v1, v2])"
    by (simp_all add: kvs_def lit_def)
  have hd: "lit ''Psalm 117 (King James Version):''
              = fstr repr0 (JStr (lit ''Psalm 117'')) @ lit '' (''
                @ fstr repr0 (JStr (lit ''King James Version'')) @ lit ''):''"
    by (simp add: lit_def)
  have n: "10 \<notin> set (fstr repr0 (JStr (lit ''Psalm 117'')))"
    "10 \<notin> set (fstr repr0 (JStr (lit ''King James Version'')))"
    by (simp_all add: lit_def)
  have rq: "upstream_ok psalm_117 (get_chapter_url (lit ''Psalm 117'') None)
              = Inr \<lparr>status_code = 200, body = Some (JObj kvs)\<rparr>"
    by (simp add: upstream_ok_def p)
  have st: "status_code \<lparr>status_code = 200, body = Some (JObj kvs)\<rparr> = 200"
    "body \<lparr>status_code = 200, body = Some (JObj kvs)\<rparr> = Some (JObj kvs)"
    by simp_all
  obtain out where out: "get_chapter repr0 (upstream_ok psalm_117) (lit ''Psalm 117'') None = Inr out"
    and lines: "split_lines out = [lit ''Psalm 117 (King James Version):'', [],
          lit ''1. O praise the LORD, all ye nations.'', lit ''2. Praise ye the LORD.'']"
    using get_chapter_lines [where requests_get = "upstream_ok psalm_117"
        and book_chapter = "lit ''Psalm 117''" and translation = None
        and response = "\<lparr>status_code = 200, body = Some (JObj kvs)\<rparr>" and kvs = kvs
        and r = "JStr (lit ''Psalm 117'')" and t = "JStr (lit ''King James Version'')"
        and vs = "[v1, v2]" and repr = repr0
        and header = "lit ''Psalm 117 (King James Version):''", OF rq st fields n plain hd]
    by (auto simp: t1 t2 s)
  from out have "out = psalm_117_text"
    by (simp add: get_chapter_psalm_117)
  with out lines show ?thesis
    by simp
qed

text \<open>
  C3 as stated fails on a chapter of two verses: the returned string has three lines
  after the header, the first of them empty, while the \<open>verses\<close> list has two entries.
  When the verse texts end in a newline, as the upstream sends them, an empty line
  follows each verse but the last as well, and there are four lines after the header.
\<close>

theorem get_chapter_line_count_counterexample:
  "get_chapter repr0 (upstream_ok psalm_117) (lit ''Psalm 117'') None = Inr psalm_117_text
   \<and> length (tl (split_lines psalm_117_text)) = 3
   \<and> and_then (py_getitem psalm_117 (lit ''verses'')) py_len = Inr 2
   \<and> get_chapter repr0 (upstream_ok psalm_117_upstream) (lit ''Psalm 117'') None
       = Inr psalm_117_upstream_text
   \<and> length (tl (split_lines psalm_117_upstream_text)) = 4
   \<and> and_then (py_getitem psalm_117_upstream (lit ''verses'')) py_len = Inr 2"
proof -
  have "length (tl (split_lines psalm_117_text)) = 3"
    by (simp add: psalm_117_text_def lit_def)
  moreover have "and_then (py_getitem psalm_117 (lit ''verses'')) py_len = Inr 2"
    by (simp add: psalm_117_def lit_def)
  moreover have "get_chapter repr0 (upstream_ok psalm_117_upstream) (lit ''Psalm 117'') None
                   = Inr psalm_117_upstream_text"
    by (simp add: get_chapter_def get_chapter_url_def upstream_ok_def response_json_def
        psalm_117_upstream_def verse_line_def psalm_117_upstream_text_def str_int_def
        str_nat.simps strip_def lstrip_def rstrip_def is_space_def or_str_def lit_def)
  moreover have "length (tl (split_lines psalm_117_upstream_text)) = 4"
    by (simp add: psalm_117_upstream_text_def lit_def)
  moreover have "and_then (py_getitem psalm_117_upstream (lit ''verses'')) py_len = Inr 2"
    by (simp add: psalm_117_upstream_def lit_def)
  ultimately show ?thesis
    using get_chapter_psalm_117 by blast
qed

end
